theory Spec2Isabelle
  imports Main "HOL-Library.Word" "HOL-Library.Signed_Division"
begin

unbundle bit_operations_syntax

section \<open>Compiler flag constraint functions (jvmFlagConstraintsCompiler.cpp)\<close>

text \<open>
  The embedding follows an LP64 build: \<open>intx\<close> and \<open>uintx\<close> are 64-bit words (read as
  two's complement where the source compares them as signed), \<open>int\<close> and \<open>uint\<close> are
  32-bit words, \<open>int64_t\<close> is a 64-bit word.  Arithmetic wraps as the word type does.
\<close>

type_synonym intx = "64 word"
type_synonym uintx = "64 word"
type_synonym jint = "32 word"
type_synonym juint = "32 word"
type_synonym int64_t = "64 word"

subsection \<open>C++ arithmetic on words\<close>

text \<open>Signed \<open>/\<close> and \<open>%\<close> of C++ truncate towards zero.\<close>

definition sdiv_word :: "'a::len word \<Rightarrow> 'a word \<Rightarrow> 'a word" where
  "sdiv_word a b = word_of_int (sint a sdiv sint b)"

definition smod_word :: "'a::len word \<Rightarrow> 'a word \<Rightarrow> 'a word" where
  "smod_word a b = word_of_int (sint a smod sint b)"

text \<open>\<open>INT_MAX\<close> as an \<open>int\<close>, and \<open>max_intx\<close>.\<close>

definition INT_MAX :: jint where
  "INT_MAX = 0x7FFFFFFF"

definition max_intx :: intx where
  "max_intx = 0x7FFFFFFFFFFFFFFF"

text \<open>
  Modelled from the spec: \<open>is_power_of_2\<close> lives in utilities/powerOfTwo.hpp, which is not
  among the sources.  A value is a power of two when it is positive and has exactly one
  bit set.
\<close>

definition is_power_of_2 :: "'a::len word \<Rightarrow> bool" where
  "is_power_of_2 v = (0 <s v \<and> v AND (v - 1) = 0)"

subsection \<open>Build and platform environment\<close>

text \<open>
  Everything the source takes from the preprocessor or from headers that are not among the
  sources is a field of this record: the conditional-compilation switches, the two
  \<open>CompilerConfig\<close> predicates, \<open>InvocationCounter::count_shift\<close>,
  \<open>relocInfo::addr_unit()\<close>, \<open>wordSize\<close>, \<open>BytesPerLong\<close>, \<open>sizeof(jdouble)\<close>,
  \<open>round_down_power_of_2\<close> (whose result on a non-positive argument the source leaves to
  an assertion) and the \<open>ControlIntrinsicValidator\<close> (\<open>None\<close> when \<open>is_valid()\<close>,
  otherwise \<open>Some\<close> of \<open>what()\<close>).
\<close>

record env =
  COMPILER1_OR_COMPILER2 :: bool
  COMPILER2 :: bool
  X86 :: bool
  AMD64 :: bool
  S390 :: bool
  INCLUDE_RTM_OPT :: bool
  is_tiered :: bool
  is_interpreter_only :: bool
  count_shift :: nat
  addr_unit :: jint
  wordSize :: jint
  BytesPerLong :: jint
  sizeof_jdouble :: uintx
  round_down_power_of_2 :: "intx \<Rightarrow> intx"
  ControlIntrinsicValidator :: "string \<Rightarrow> bool \<Rightarrow> string option"

subsection \<open>The flag store\<close>

text \<open>
  The global flags the constraint functions read and write.  \<open>VerifyFlagConstraints\<close> is
  the mode switch: set, a violated constraint is repaired in place; clear, it is reported.
  Each flag has the type of the value argument of its constraint function.
  Modelled from the spec: \<open>FLAG_IS_DEFAULT\<close> is a macro of
  runtime/globals_extension.hpp, which is not among the sources.  The parameter store
  reports whether a parameter still holds its unmodified default: the two \<open>_is_default\<close>
  fields are what \<open>FLAG_IS_DEFAULT\<close> answers, and an assignment to a flag leaves them
  alone.
\<close>

record globals =
  VerifyFlagConstraints :: bool
  CICompilerCount :: intx
  AllocatePrefetchDistance :: intx
  AllocatePrefetchStepSize :: intx
  AllocatePrefetchStyle :: intx
  AllocatePrefetchInstr :: intx
  CompileThreshold :: intx
  OnStackReplacePercentage :: intx
  ProfileInterpreter :: bool
  InterpreterProfilePercentage :: intx
  CodeCacheSegmentSize :: uintx
  CodeEntryAlignment :: intx
  OptoLoopAlignment :: intx
  TypeProfileLevel :: juint
  InteriorEntryAlignment :: intx
  NodeLimitFudgeFactor :: intx
  MaxNodeLimit :: intx
  UseRTMLocking :: bool
  RTMTotalCountIncrRate :: jint
  UseCountedLoopSafepoints :: bool
  UseCountedLoopSafepoints_is_default :: bool
  LoopStripMiningIter :: uintx
  LoopStripMiningIter_is_default :: bool

text \<open>The two values of \<open>JVMFlag::Error\<close> that the constraint functions return.\<close>

datatype Error = SUCCESS | VIOLATES_CONSTRAINT

subsection \<open>Diagnostics\<close>

text \<open>
  A printed line is the format string of the \<open>JVMFlag::printError\<close> call with the
  arguments in order.
\<close>

datatype arg = I intx | U uintx | D jint | U32 juint | I64 int64_t | Pos nat | S string

type_synonym message = "string \<times> arg list"

text \<open>
  Modelled from the spec: \<open>JVMFlag::printError\<close> is declared in runtime/flags/jvmFlag.hpp,
  which is not among the sources.  The diagnostics interface emits the message unless the
  caller silences it: the message is printed when the first argument is true.
\<close>

definition printError :: "bool \<Rightarrow> string \<Rightarrow> arg list \<Rightarrow> message list" where
  "printError verbose fmt args = (if verbose then [(fmt, args)] else [])"

text \<open>What a call leaves behind: the returned error code, the flag store, the lines printed.\<close>

record result =
  ret :: Error
  glob :: globals
  printed :: "message list"

subsection \<open>Format strings\<close>

text \<open>
  The format strings of the source's \<open>JVMFlag::printError\<close> calls, in the order of the
  source: format macros left by name, adjacent literals joined, the closing newline dropped.
\<close>

definition fmt_CICompilerCount_minus_1 :: string where
  "fmt_CICompilerCount_minus_1 = ''CICompilerCount=-1''"

definition fmt_CICompilerCount_no_compilers :: string where
  "fmt_CICompilerCount_no_compilers = ''CICompilerCount (INTX_FORMAT) cannot be greater than 0 because there are no compilers''"

definition fmt_CICompilerCount_set :: string where
  "fmt_CICompilerCount_set = ''CICompilerCount:%d''"

definition fmt_CICompilerCount_at_least :: string where
  "fmt_CICompilerCount_at_least = ''CICompilerCount (INTX_FORMAT) must be at least %d ''"

definition fmt_AllocatePrefetchDistance_set :: string where
  "fmt_AllocatePrefetchDistance_set = ''AllocatePrefetchDistance:INTX_FORMAT''"

definition fmt_AllocatePrefetchDistance_between :: string where
  "fmt_AllocatePrefetchDistance_between = ''AllocatePrefetchDistance (INTX_FORMAT) must be between 0 and %d''"

definition fmt_AllocatePrefetchStepSize_set :: string where
  "fmt_AllocatePrefetchStepSize_set = ''AllocatePrefetchStepSize:INTX_FORMAT''"

definition fmt_AllocatePrefetchStepSize_multiple :: string where
  "fmt_AllocatePrefetchStepSize_multiple = ''AllocatePrefetchStepSize (INTX_FORMAT) must be multiple of %d''"

definition fmt_AllocatePrefetchInstr_set :: string where
  "fmt_AllocatePrefetchInstr_set = ''AllocatePrefetchInstr:INTX_FORMAT''"

definition fmt_AllocatePrefetchInstr_between :: string where
  "fmt_AllocatePrefetchInstr_between = ''AllocatePrefetchInstr (INTX_FORMAT) must be between 0 and INTX_FORMAT''"

definition fmt_CompileThreshold_set :: string where
  "fmt_CompileThreshold_set = ''CompileThreshold:INTX_FORMAT''"

definition fmt_CompileThreshold_between :: string where
  "fmt_CompileThreshold_between = ''CompileThreshold (INTX_FORMAT) must be between 0 and %d''"

definition fmt_OnStackReplacePercentage_CompileThreshold_invalid :: string where
  "fmt_OnStackReplacePercentage_CompileThreshold_invalid = ''OnStackReplacePercentage cannot be validated because CompileThreshold value is invalid''"

definition fmt_OnStackReplacePercentage_set :: string where
  "fmt_OnStackReplacePercentage_set = ''OnStackReplacePercentage:INTX_FORMAT''"

definition fmt_OnStackReplacePercentage_larger :: string where
  "fmt_OnStackReplacePercentage_larger = ''OnStackReplacePercentage (INTX_FORMAT) must be larger than InterpreterProfilePercentage (INTX_FORMAT)''"

definition fmt_OnStackReplacePercentage_between :: string where
  "fmt_OnStackReplacePercentage_between = ''OnStackReplacePercentage (INTX_FORMAT) must be between 0 and INT64_FORMAT''"

definition fmt_OnStackReplacePercentage_non_negative :: string where
  "fmt_OnStackReplacePercentage_non_negative = ''OnStackReplacePercentage (INTX_FORMAT) must be non-negative''"

definition fmt_CodeCacheSegmentSize_CodeEntryAlignment :: string where
  "fmt_CodeCacheSegmentSize_CodeEntryAlignment = ''CodeCacheSegmentSize  (UINTX_FORMAT) must be larger than or equal to CodeEntryAlignment (INTX_FORMAT) to align entry points''"

definition fmt_CodeCacheSegmentSize_at_least :: string where
  "fmt_CodeCacheSegmentSize_at_least = ''CodeCacheSegmentSize  (UINTX_FORMAT) must be at least SIZE_FORMAT to align constants''"

definition fmt_CodeCacheSegmentSize_OptoLoopAlignment :: string where
  "fmt_CodeCacheSegmentSize_OptoLoopAlignment = ''CodeCacheSegmentSize  (UINTX_FORMAT) must be larger than or equal to OptoLoopAlignment (INTX_FORMAT) to align inner loops''"

definition fmt_CodeEntryAlignment_power_of_two :: string where
  "fmt_CodeEntryAlignment_power_of_two = ''CodeEntryAlignment (INTX_FORMAT) must be a power of two''"

definition fmt_CodeEntryAlignment_at_least :: string where
  "fmt_CodeEntryAlignment_at_least = ''CodeEntryAlignment (INTX_FORMAT) must be greater than or equal to %d''"

definition fmt_CodeEntryAlignment_CodeCacheSegmentSize :: string where
  "fmt_CodeEntryAlignment_CodeCacheSegmentSize = ''CodeEntryAlignment (INTX_FORMAT) must be less than or equal to CodeCacheSegmentSize (UINTX_FORMAT) to align entry points''"

definition fmt_OptoLoopAlignment_power_of_two :: string where
  "fmt_OptoLoopAlignment_power_of_two = ''OptoLoopAlignment (INTX_FORMAT) must be a power of two''"

definition fmt_OptoLoopAlignment_multiple :: string where
  "fmt_OptoLoopAlignment_multiple = ''OptoLoopAlignment (INTX_FORMAT) must be multiple of NOP size (%d)''"

definition fmt_OptoLoopAlignment_CodeEntryAlignment :: string where
  "fmt_OptoLoopAlignment_CodeEntryAlignment = ''OptoLoopAlignment (INTX_FORMAT) must be less or equal to CodeEntryAlignment (INTX_FORMAT)''"

definition fmt_OptoLoopAlignment_set :: string where
  "fmt_OptoLoopAlignment_set = ''OptoLoopAlignment:INTX_FORMAT''"

definition fmt_ArraycopyDstPrefetchDistance_between :: string where
  "fmt_ArraycopyDstPrefetchDistance_between = ''ArraycopyDstPrefetchDistance (UINTX_FORMAT) must bebetween 0 and 4031''"

definition fmt_AVX3Threshold_power_of_two :: string where
  "fmt_AVX3Threshold_power_of_two = ''AVX3Threshold ( %d ) must be 0 or a power of two value between 0 and MAX_INT''"

definition fmt_ArraycopySrcPrefetchDistance_between :: string where
  "fmt_ArraycopySrcPrefetchDistance_between = ''ArraycopySrcPrefetchDistance (UINTX_FORMAT) must bebetween 0 and 4031''"

definition fmt_TypeProfileLevel_position :: string where
  "fmt_TypeProfileLevel_position = ''Invalid value ( %u ) in TypeProfileLevel at position %d''"

definition fmt_TypeProfileLevel_digits :: string where
  "fmt_TypeProfileLevel_digits = ''Invalid value (UINT32_FORMAT) for TypeProfileLevel: maximal 3 digits''"

definition fmt_TypeProfileLevel_set :: string where
  "fmt_TypeProfileLevel_set = ''TypeProfileLevel:UINTX_FORMAT''"

definition fmt_VerifyIterativeGVN_position :: string where
  "fmt_VerifyIterativeGVN_position = ''Invalid value ( %u ) in VerifyIterativeGVN at position %d''"

definition fmt_VerifyIterativeGVN_digits :: string where
  "fmt_VerifyIterativeGVN_digits = ''Invalid value (UINT32_FORMAT) for VerifyIterativeGVN: maximal 2 digits''"

definition fmt_InitArrayShortSize_multiple :: string where
  "fmt_InitArrayShortSize_multiple = ''InitArrayShortSize (INTX_FORMAT) must be a multiple of %d''"

definition fmt_InteriorEntryAlignment_CodeEntryAlignment :: string where
  "fmt_InteriorEntryAlignment_CodeEntryAlignment = ''InteriorEntryAlignment (INTX_FORMAT) must be less than or equal to CodeEntryAlignment (INTX_FORMAT)''"

definition fmt_InteriorEntryAlignment_power_of_two :: string where
  "fmt_InteriorEntryAlignment_power_of_two = ''InteriorEntryAlignment (INTX_FORMAT) must be a power of two''"

definition fmt_InteriorEntryAlignment_at_least :: string where
  "fmt_InteriorEntryAlignment_at_least = ''InteriorEntryAlignment (INTX_FORMAT) must be greater than or equal to %d''"

definition fmt_InteriorEntryAlignment_set :: string where
  "fmt_InteriorEntryAlignment_set = ''InteriorEntryAlignment:INTX_FORMAT''"

definition fmt_NodeLimitFudgeFactor_set :: string where
  "fmt_NodeLimitFudgeFactor_set = ''NodeLimitFudgeFactor:INTX_FORMAT''"

definition fmt_NodeLimitFudgeFactor_between :: string where
  "fmt_NodeLimitFudgeFactor_between = ''NodeLimitFudgeFactor must be between 2%% and 40%% of MaxNodeLimit (INTX_FORMAT)''"

definition fmt_RTMTotalCountIncrRate_reset :: string where
  "fmt_RTMTotalCountIncrRate_reset = ''RTMTotalCountIncrRate (%d) must be a power of 2, resetting it to 64''"

definition fmt_LoopStripMiningIter_set_1 :: string where
  "fmt_LoopStripMiningIter_set_1 = ''When counted loop safepoints are enabled, LoopStripMiningIter must be at least 1 (a safepoint every 1 iteration): setting it to 1''"

definition fmt_LoopStripMiningIter_set_0 :: string where
  "fmt_LoopStripMiningIter_set_0 = ''Disabling counted safepoints implies no loop strip mining: setting LoopStripMiningIter to 0''"

definition fmt_DisableIntrinsic_unrecognized :: string where
  "fmt_DisableIntrinsic_unrecognized = ''Unrecognized intrinsic detected in DisableIntrinsic: %s''"

definition fmt_ControlIntrinsic_unrecognized :: string where
  "fmt_ControlIntrinsic_unrecognized = ''Unrecognized intrinsic detected in ControlIntrinsic: %s''"

subsection \<open>Bounded flags\<close>

definition CICompilerCountConstraintFunc :: "env \<Rightarrow> intx \<Rightarrow> bool \<Rightarrow> globals \<Rightarrow> result" where
  "CICompilerCountConstraintFunc e value verbose g =
    (let min_number_of_compiler_threads :: jint =
           (if COMPILER1_OR_COMPILER2 e then
              (if is_tiered e then 2 else if \<not> is_interpreter_only e then 1 else 0)
            else 0)
     in
     if \<not> COMPILER1_OR_COMPILER2 e \<and> 0 <s value then
       (if VerifyFlagConstraints g then
          \<lparr>ret = SUCCESS, glob = g\<lparr>CICompilerCount := - 1\<rparr>,
           printed = printError True fmt_CICompilerCount_minus_1 []\<rparr>
        else
          \<lparr>ret = VIOLATES_CONSTRAINT, glob = g,
           printed = printError verbose
             fmt_CICompilerCount_no_compilers
             [I value]\<rparr>)
     else if value <s scast min_number_of_compiler_threads then
       (if VerifyFlagConstraints g then
          \<lparr>ret = SUCCESS, glob = g\<lparr>CICompilerCount := scast min_number_of_compiler_threads\<rparr>,
           printed = printError True fmt_CICompilerCount_set [D min_number_of_compiler_threads]\<rparr>
        else
          \<lparr>ret = VIOLATES_CONSTRAINT, glob = g,
           printed = printError verbose fmt_CICompilerCount_at_least
             [I value, D min_number_of_compiler_threads]\<rparr>)
     else \<lparr>ret = SUCCESS, glob = g, printed = []\<rparr>)"

definition AllocatePrefetchDistanceConstraintFunc :: "intx \<Rightarrow> bool \<Rightarrow> globals \<Rightarrow> result" where
  "AllocatePrefetchDistanceConstraintFunc value verbose g =
    (if value <s 0 \<or> 512 <s value then
       (if VerifyFlagConstraints g then
          (let g' = g\<lparr>AllocatePrefetchDistance := (if value <s 0 then 1 else 512)\<rparr>
           in \<lparr>ret = SUCCESS, glob = g',
               printed = printError True fmt_AllocatePrefetchDistance_set
                 [I (AllocatePrefetchDistance g')]\<rparr>)
        else
          \<lparr>ret = VIOLATES_CONSTRAINT, glob = g,
           printed = printError verbose
             fmt_AllocatePrefetchDistance_between
             [I (AllocatePrefetchDistance g), D 512]\<rparr>)
     else \<lparr>ret = SUCCESS, glob = g, printed = []\<rparr>)"

definition AllocatePrefetchStepSizeConstraintFunc :: "env \<Rightarrow> intx \<Rightarrow> bool \<Rightarrow> globals \<Rightarrow> result" where
  "AllocatePrefetchStepSizeConstraintFunc e value verbose g =
    (if AllocatePrefetchStyle g = 3 then
     if smod_word value (scast (wordSize e)) \<noteq> 0 then
       (if VerifyFlagConstraints g then
          (let remainder :: jint = ucast (smod_word value (scast (wordSize e)));
               g1 = g\<lparr>AllocatePrefetchStepSize := value - scast remainder\<rparr>;
               g2 = (if AllocatePrefetchStepSize g1 = 0
                     then g1\<lparr>AllocatePrefetchStepSize := scast (wordSize e)\<rparr> else g1)
           in \<lparr>ret = SUCCESS, glob = g2,
               printed = printError True fmt_AllocatePrefetchStepSize_set
                 [I (AllocatePrefetchStepSize g2)]\<rparr>)
        else
          \<lparr>ret = VIOLATES_CONSTRAINT, glob = g,
           printed = printError verbose
             fmt_AllocatePrefetchStepSize_multiple
             [I value, D (wordSize e)]\<rparr>)
     else \<lparr>ret = SUCCESS, glob = g, printed = []\<rparr>
     else \<lparr>ret = SUCCESS, glob = g, printed = []\<rparr>)"

definition AllocatePrefetchInstrConstraintFunc :: "env \<Rightarrow> intx \<Rightarrow> bool \<Rightarrow> globals \<Rightarrow> result" where
  "AllocatePrefetchInstrConstraintFunc e value verbose g =
    (let max_value :: intx = (if X86 e then 3 else max_intx)
     in
     if value <s 0 \<or> max_value <s value then
       (if VerifyFlagConstraints g then
          (let g' = g\<lparr>AllocatePrefetchInstr := (if value <s 0 then 0 else max_value)\<rparr>
           in \<lparr>ret = SUCCESS, glob = g',
               printed = printError True fmt_AllocatePrefetchInstr_set
                 [I (AllocatePrefetchInstr g')]\<rparr>)
        else
          \<lparr>ret = VIOLATES_CONSTRAINT, glob = g,
           printed = printError verbose
             fmt_AllocatePrefetchInstr_between
             [I value, I max_value]\<rparr>)
     else \<lparr>ret = SUCCESS, glob = g, printed = []\<rparr>)"

text \<open>\<open>INT_MAX >> InvocationCounter::count_shift\<close>, an \<open>int\<close>.\<close>

definition max_CompileThreshold :: "env \<Rightarrow> jint" where
  "max_CompileThreshold e = signed_drop_bit (count_shift e) INT_MAX"

definition CompileThresholdConstraintFunc :: "env \<Rightarrow> intx \<Rightarrow> bool \<Rightarrow> globals \<Rightarrow> result" where
  "CompileThresholdConstraintFunc e value verbose g =
    (if value <s 0 \<or> scast (max_CompileThreshold e) <s value then
       (if VerifyFlagConstraints g then
          (let g' = g\<lparr>CompileThreshold :=
                       (if value <s 0 then 0 else scast (max_CompileThreshold e))\<rparr>
           in \<lparr>ret = SUCCESS, glob = g',
               printed = printError True fmt_CompileThreshold_set
                 [I (CompileThreshold g')]\<rparr>)
        else
          \<lparr>ret = VIOLATES_CONSTRAINT, glob = g,
           printed = printError verbose
             fmt_CompileThreshold_between
             [I value, D (max_CompileThreshold e)]\<rparr>)
     else \<lparr>ret = SUCCESS, glob = g, printed = []\<rparr>)"

subsection \<open>OnStackReplacePercentage and its derived bound\<close>

text \<open>
  The part of \<open>OnStackReplacePercentageConstraintFunc\<close> after the check of
  \<open>CompileThreshold\<close>: the computation of \<open>max_percentage_limit\<close> and the two bounds.
\<close>

definition OnStackReplacePercentage_limits ::
  "env \<Rightarrow> intx \<Rightarrow> bool \<Rightarrow> globals \<Rightarrow> result" where
  "OnStackReplacePercentage_limits e value verbose g =
    (let max_percentage_limit0 :: int64_t = scast INT_MAX;
         max_percentage_limit1 =
           (if \<not> ProfileInterpreter g
            then signed_drop_bit (count_shift e) max_percentage_limit0
            else max_percentage_limit0);
         max_percentage_limit2 =
           (if CompileThreshold g = 0 then max_percentage_limit1 * 100
            else sdiv_word (max_percentage_limit1 * 100) (CompileThreshold g))
     in
     if ProfileInterpreter g then
       (if value <s InterpreterProfilePercentage g then
          (if VerifyFlagConstraints g then
             (let g' = g\<lparr>OnStackReplacePercentage := InterpreterProfilePercentage g\<rparr>
              in \<lparr>ret = SUCCESS, glob = g',
                  printed = printError True fmt_OnStackReplacePercentage_set
                    [I (OnStackReplacePercentage g')]\<rparr>)
           else
             \<lparr>ret = VIOLATES_CONSTRAINT, glob = g,
              printed = printError verbose
                fmt_OnStackReplacePercentage_larger
                [I value, I (InterpreterProfilePercentage g)]\<rparr>)
        else
          (let max_percentage_limit3 = max_percentage_limit2 + InterpreterProfilePercentage g
           in
           if max_percentage_limit3 <s value then
             (if VerifyFlagConstraints g then
                (let g' = g\<lparr>OnStackReplacePercentage := max_percentage_limit3\<rparr>
                 in \<lparr>ret = SUCCESS, glob = g',
                     printed = printError True fmt_OnStackReplacePercentage_set
                       [I (OnStackReplacePercentage g')]\<rparr>)
              else
                \<lparr>ret = VIOLATES_CONSTRAINT, glob = g,
                 printed = printError verbose
                   fmt_OnStackReplacePercentage_between
                   [I value, I64 max_percentage_limit3]\<rparr>)
           else \<lparr>ret = SUCCESS, glob = g, printed = []\<rparr>))
     else
       (if value <s 0 then
          (if VerifyFlagConstraints g then
             (let g' = g\<lparr>OnStackReplacePercentage := 0\<rparr>
              in \<lparr>ret = SUCCESS, glob = g',
                  printed = printError True fmt_OnStackReplacePercentage_set
                    [I (OnStackReplacePercentage g')]\<rparr>)
           else
             \<lparr>ret = VIOLATES_CONSTRAINT, glob = g,
              printed = printError verbose
                fmt_OnStackReplacePercentage_non_negative [I value]\<rparr>)
        else if max_percentage_limit2 <s value then
          (if VerifyFlagConstraints g then
             (let g' = g\<lparr>OnStackReplacePercentage := max_percentage_limit2\<rparr>
              in \<lparr>ret = SUCCESS, glob = g',
                  printed = printError True fmt_OnStackReplacePercentage_set
                    [I (OnStackReplacePercentage g')]\<rparr>)
           else
             \<lparr>ret = VIOLATES_CONSTRAINT, glob = g,
              printed = printError verbose
                fmt_OnStackReplacePercentage_between
                [I value, I64 max_percentage_limit2]\<rparr>)
        else \<lparr>ret = SUCCESS, glob = g, printed = []\<rparr>))"

text \<open>
  The function first calls \<open>CompileThresholdConstraintFunc(CompileThreshold, false)\<close>; the
  store that call leaves behind is the one the rest of the function works on, and the
  lines it printed come first.
\<close>

definition OnStackReplacePercentageConstraintFunc ::
  "env \<Rightarrow> intx \<Rightarrow> bool \<Rightarrow> globals \<Rightarrow> result" where
  "OnStackReplacePercentageConstraintFunc e value verbose g =
    (let r0 = CompileThresholdConstraintFunc e (CompileThreshold g) False g
     in
     if ret r0 = VIOLATES_CONSTRAINT then
       \<lparr>ret = VIOLATES_CONSTRAINT, glob = glob r0,
        printed = printed r0 @ printError verbose
          fmt_OnStackReplacePercentage_CompileThreshold_invalid
          []\<rparr>
     else
       (let r = OnStackReplacePercentage_limits e value verbose (glob r0)
        in r\<lparr>printed := printed r0 @ printed r\<rparr>))"

subsection \<open>Code alignment flags without a repair branch\<close>

definition CodeCacheSegmentSizeConstraintFunc ::
  "env \<Rightarrow> uintx \<Rightarrow> bool \<Rightarrow> globals \<Rightarrow> result" where
  "CodeCacheSegmentSizeConstraintFunc e value verbose g =
    (if CodeCacheSegmentSize g < CodeEntryAlignment g then
       \<lparr>ret = VIOLATES_CONSTRAINT, glob = g,
        printed = printError verbose
          fmt_CodeCacheSegmentSize_CodeEntryAlignment
          [U (CodeCacheSegmentSize g), I (CodeEntryAlignment g)]\<rparr>
     else if CodeCacheSegmentSize g < sizeof_jdouble e then
       \<lparr>ret = VIOLATES_CONSTRAINT, glob = g,
        printed = printError verbose
          fmt_CodeCacheSegmentSize_at_least
          [U (CodeCacheSegmentSize g), U (sizeof_jdouble e)]\<rparr>
     else if COMPILER2 e \<and> CodeCacheSegmentSize g < OptoLoopAlignment g then
       \<lparr>ret = VIOLATES_CONSTRAINT, glob = g,
        printed = printError verbose
          fmt_CodeCacheSegmentSize_OptoLoopAlignment
          [U (CodeCacheSegmentSize g), I (OptoLoopAlignment g)]\<rparr>
     else \<lparr>ret = SUCCESS, glob = g, printed = []\<rparr>)"

definition CodeEntryAlignmentConstraintFunc :: "intx \<Rightarrow> bool \<Rightarrow> globals \<Rightarrow> result" where
  "CodeEntryAlignmentConstraintFunc value verbose g =
    (if \<not> is_power_of_2 value then
       \<lparr>ret = VIOLATES_CONSTRAINT, glob = g,
        printed = printError verbose fmt_CodeEntryAlignment_power_of_two
          [I (CodeEntryAlignment g)]\<rparr>
     else if CodeEntryAlignment g <s 16 then
       \<lparr>ret = VIOLATES_CONSTRAINT, glob = g,
        printed = printError verbose
          fmt_CodeEntryAlignment_at_least
          [I (CodeEntryAlignment g), D 16]\<rparr>
     else if CodeCacheSegmentSize g < CodeEntryAlignment g then
       \<lparr>ret = VIOLATES_CONSTRAINT, glob = g,
        printed = printError verbose
          fmt_CodeEntryAlignment_CodeCacheSegmentSize
          [I (CodeEntryAlignment g), U (CodeCacheSegmentSize g)]\<rparr>
     else \<lparr>ret = SUCCESS, glob = g, printed = []\<rparr>)"

subsection \<open>OptoLoopAlignment\<close>

text \<open>
  The function updates its local \<open>value\<close> and \<open>verifyFailed\<close> in three successive
  checks and stores at the end.  Each definition below is the function from one check to
  its end, taking the two locals as they stand there.
\<close>

definition OptoLoopAlignment_store :: "bool \<Rightarrow> intx \<Rightarrow> bool \<Rightarrow> globals \<Rightarrow> result" where
  "OptoLoopAlignment_store verifyFailed value verbose g =
    (if verifyFailed then
       \<lparr>ret = SUCCESS, glob = g\<lparr>OptoLoopAlignment := value\<rparr>,
        printed = printError verbose fmt_OptoLoopAlignment_set [I value]\<rparr>
     else \<lparr>ret = SUCCESS, glob = g, printed = []\<rparr>)"

definition OptoLoopAlignment_CodeEntryAlignment ::
  "bool \<Rightarrow> intx \<Rightarrow> bool \<Rightarrow> globals \<Rightarrow> result" where
  "OptoLoopAlignment_CodeEntryAlignment verifyFailed value verbose g =
    (if CodeEntryAlignment g <s value then
       (if VerifyFlagConstraints g then
          OptoLoopAlignment_store True (CodeEntryAlignment g) verbose g
        else
          \<lparr>ret = VIOLATES_CONSTRAINT, glob = g,
           printed = printError verbose
             fmt_OptoLoopAlignment_CodeEntryAlignment
             [I value, I (CodeEntryAlignment g)]\<rparr>)
     else OptoLoopAlignment_store verifyFailed value verbose g)"

definition OptoLoopAlignment_addr_unit ::
  "env \<Rightarrow> bool \<Rightarrow> intx \<Rightarrow> bool \<Rightarrow> globals \<Rightarrow> result" where
  "OptoLoopAlignment_addr_unit e verifyFailed value verbose g =
    (if smod_word value (scast (addr_unit e)) \<noteq> 0 then
       (if VerifyFlagConstraints g then
          (let remainder :: jint = ucast (smod_word value (scast (addr_unit e)))
           in OptoLoopAlignment_CodeEntryAlignment True (value - scast remainder) verbose g)
        else
          \<lparr>ret = VIOLATES_CONSTRAINT, glob = g,
           printed = printError verbose
             fmt_OptoLoopAlignment_multiple
             [I value, D (addr_unit e)]\<rparr>)
     else OptoLoopAlignment_CodeEntryAlignment verifyFailed value verbose g)"

definition OptoLoopAlignmentConstraintFunc :: "env \<Rightarrow> intx \<Rightarrow> bool \<Rightarrow> globals \<Rightarrow> result" where
  "OptoLoopAlignmentConstraintFunc e value verbose g =
    (if \<not> is_power_of_2 value then
       (if VerifyFlagConstraints g then
          OptoLoopAlignment_addr_unit e True (round_down_power_of_2 e value) verbose g
        else
          \<lparr>ret = VIOLATES_CONSTRAINT, glob = g,
           printed = printError verbose fmt_OptoLoopAlignment_power_of_two
             [I value]\<rparr>)
     else OptoLoopAlignment_addr_unit e False value verbose g)"

subsection \<open>Flags without a repair branch\<close>

definition ArraycopyDstPrefetchDistanceConstraintFunc ::
  "uintx \<Rightarrow> bool \<Rightarrow> globals \<Rightarrow> result" where
  "ArraycopyDstPrefetchDistanceConstraintFunc value verbose g =
    (if 4032 \<le> value then
       \<lparr>ret = VIOLATES_CONSTRAINT, glob = g,
        printed = printError verbose
          fmt_ArraycopyDstPrefetchDistance_between [U value]\<rparr>
     else \<lparr>ret = SUCCESS, glob = g, printed = []\<rparr>)"

definition AVX3ThresholdConstraintFunc :: "jint \<Rightarrow> bool \<Rightarrow> globals \<Rightarrow> result" where
  "AVX3ThresholdConstraintFunc value verbose g =
    (if value \<noteq> 0 \<and> \<not> is_power_of_2 value then
       \<lparr>ret = VIOLATES_CONSTRAINT, glob = g,
        printed = printError verbose
          fmt_AVX3Threshold_power_of_two
          [D value]\<rparr>
     else \<lparr>ret = SUCCESS, glob = g, printed = []\<rparr>)"

definition ArraycopySrcPrefetchDistanceConstraintFunc ::
  "uintx \<Rightarrow> bool \<Rightarrow> globals \<Rightarrow> result" where
  "ArraycopySrcPrefetchDistanceConstraintFunc value verbose g =
    (if 4032 \<le> value then
       \<lparr>ret = VIOLATES_CONSTRAINT, glob = g,
        printed = printError verbose
          fmt_ArraycopySrcPrefetchDistance_between [U value]\<rparr>
     else \<lparr>ret = SUCCESS, glob = g, printed = []\<rparr>)"

definition InitArrayShortSizeConstraintFunc :: "env \<Rightarrow> intx \<Rightarrow> bool \<Rightarrow> globals \<Rightarrow> result" where
  "InitArrayShortSizeConstraintFunc e value verbose g =
    (if smod_word value (scast (BytesPerLong e)) \<noteq> 0 then
       \<lparr>ret = VIOLATES_CONSTRAINT, glob = g,
        printed = printError verbose fmt_InitArrayShortSize_multiple
          [I value, D (BytesPerLong e)]\<rparr>
     else \<lparr>ret = SUCCESS, glob = g, printed = []\<rparr>)"

definition DisableIntrinsicConstraintFunc :: "env \<Rightarrow> string \<Rightarrow> bool \<Rightarrow> globals \<Rightarrow> result" where
  "DisableIntrinsicConstraintFunc e value verbose g =
    (case ControlIntrinsicValidator e value True of
       Some what \<Rightarrow>
         \<lparr>ret = VIOLATES_CONSTRAINT, glob = g,
          printed = printError verbose
            fmt_DisableIntrinsic_unrecognized [S what]\<rparr>
     | None \<Rightarrow> \<lparr>ret = SUCCESS, glob = g, printed = []\<rparr>)"

definition ControlIntrinsicConstraintFunc :: "env \<Rightarrow> string \<Rightarrow> bool \<Rightarrow> globals \<Rightarrow> result" where
  "ControlIntrinsicConstraintFunc e value verbose g =
    (case ControlIntrinsicValidator e value False of
       Some what \<Rightarrow>
         \<lparr>ret = VIOLATES_CONSTRAINT, glob = g,
          printed = printError verbose
            fmt_ControlIntrinsic_unrecognized [S what]\<rparr>
     | None \<Rightarrow> \<lparr>ret = SUCCESS, glob = g, printed = []\<rparr>)"

subsection \<open>Digit-packed flags\<close>

text \<open>
  The \<open>for\<close> loop of \<open>TypeProfileLevelConstraintFunc\<close>, by the number of iterations left:
  \<open>i\<close> is the position, \<open>value\<close> the digits not yet read.  \<open>Inl\<close> is the return from
  inside the loop, with the line it printed; \<open>Inr\<close> is the state the loop ends in.
\<close>

fun TypeProfileLevel_loop ::
  "nat \<Rightarrow> nat \<Rightarrow> bool \<Rightarrow> bool \<Rightarrow> juint \<Rightarrow> bool \<Rightarrow> jint list
    \<Rightarrow> message list + (juint \<times> bool \<times> jint list)" where
  "TypeProfileLevel_loop 0 i vfc verbose value verifyFailed suggested =
     Inr (value, verifyFailed, suggested)"
| "TypeProfileLevel_loop (Suc n) i vfc verbose value verifyFailed suggested =
     (if 2 < value mod 10 then
        (if vfc then
           TypeProfileLevel_loop n (Suc i) vfc verbose (value div 10) True (suggested[i := 2])
         else
           Inl (printError verbose fmt_TypeProfileLevel_position
                  [U32 value, Pos i]))
      else
        TypeProfileLevel_loop n (Suc i) vfc verbose (value div 10) verifyFailed
          (suggested[i := ucast (value mod 10)]))"

definition TypeProfileLevel_store :: "bool \<Rightarrow> jint list \<Rightarrow> globals \<Rightarrow> result" where
  "TypeProfileLevel_store verifyFailed suggested g =
    (if verifyFailed then
       (let suggestedValue :: uintx =
              scast (suggested ! 0 + suggested ! 1 * 10 + suggested ! 2 * 100)
        in \<lparr>ret = SUCCESS, glob = g\<lparr>TypeProfileLevel := ucast suggestedValue\<rparr>,
            printed = printError True fmt_TypeProfileLevel_set [U suggestedValue]\<rparr>)
     else \<lparr>ret = SUCCESS, glob = g, printed = []\<rparr>)"

text \<open>
  \<open>suggested\<close> starts uninitialised in the source; all three entries are assigned before
  the loop ends, so the initial content is never read.
\<close>

definition TypeProfileLevelConstraintFunc :: "juint \<Rightarrow> bool \<Rightarrow> globals \<Rightarrow> result" where
  "TypeProfileLevelConstraintFunc value verbose g =
    (let original_value = value
     in
     case TypeProfileLevel_loop 3 0 (VerifyFlagConstraints g) verbose value False [0, 0, 0] of
       Inl lines \<Rightarrow> \<lparr>ret = VIOLATES_CONSTRAINT, glob = g, printed = lines\<rparr>
     | Inr (value', verifyFailed, suggested) \<Rightarrow>
         (if value' \<noteq> 0 then
            (if VerifyFlagConstraints g then TypeProfileLevel_store True suggested g
             else
               \<lparr>ret = VIOLATES_CONSTRAINT, glob = g,
                printed = printError verbose
                  fmt_TypeProfileLevel_digits
                  [U32 original_value]\<rparr>)
          else TypeProfileLevel_store verifyFailed suggested g))"

fun VerifyIterativeGVN_loop ::
  "nat \<Rightarrow> nat \<Rightarrow> bool \<Rightarrow> juint \<Rightarrow> message list + juint" where
  "VerifyIterativeGVN_loop 0 i verbose value = Inr value"
| "VerifyIterativeGVN_loop (Suc n) i verbose value =
     (if 1 < value mod 10 then
        Inl (printError verbose fmt_VerifyIterativeGVN_position
               [U32 value, Pos i])
      else VerifyIterativeGVN_loop n (Suc i) verbose (value div 10))"

definition VerifyIterativeGVNConstraintFunc :: "juint \<Rightarrow> bool \<Rightarrow> globals \<Rightarrow> result" where
  "VerifyIterativeGVNConstraintFunc value verbose g =
    (let original_value = value
     in
     case VerifyIterativeGVN_loop 2 0 verbose value of
       Inl lines \<Rightarrow> \<lparr>ret = VIOLATES_CONSTRAINT, glob = g, printed = lines\<rparr>
     | Inr value' \<Rightarrow>
         (if value' \<noteq> 0 then
            \<lparr>ret = VIOLATES_CONSTRAINT, glob = g,
             printed = printError verbose
               fmt_VerifyIterativeGVN_digits
               [U32 original_value]\<rparr>
          else \<lparr>ret = SUCCESS, glob = g, printed = []\<rparr>))"

subsection \<open>InteriorEntryAlignment and NodeLimitFudgeFactor\<close>

definition InteriorEntryAlignment_store :: "bool \<Rightarrow> intx \<Rightarrow> globals \<Rightarrow> result" where
  "InteriorEntryAlignment_store verifyFailed value g =
    (if verifyFailed then
       \<lparr>ret = SUCCESS, glob = g\<lparr>InteriorEntryAlignment := value\<rparr>,
        printed = printError True fmt_InteriorEntryAlignment_set [I value]\<rparr>
     else \<lparr>ret = SUCCESS, glob = g, printed = []\<rparr>)"

definition InteriorEntryAlignment_minimum ::
  "env \<Rightarrow> bool \<Rightarrow> intx \<Rightarrow> bool \<Rightarrow> globals \<Rightarrow> result" where
  "InteriorEntryAlignment_minimum e verifyFailed value verbose g =
    (let minimum_alignment :: jint =
           (if X86 e \<and> \<not> AMD64 e then 4 else if S390 e then 2 else 16)
     in
     if value <s scast minimum_alignment then
       (if VerifyFlagConstraints g then
          InteriorEntryAlignment_store True (scast minimum_alignment) g
        else
          \<lparr>ret = VIOLATES_CONSTRAINT, glob = g,
           printed = printError verbose
             fmt_InteriorEntryAlignment_at_least
             [I (InteriorEntryAlignment g), D minimum_alignment]\<rparr>)
     else InteriorEntryAlignment_store verifyFailed value g)"

definition InteriorEntryAlignment_power_of_two ::
  "env \<Rightarrow> bool \<Rightarrow> intx \<Rightarrow> bool \<Rightarrow> globals \<Rightarrow> result" where
  "InteriorEntryAlignment_power_of_two e verifyFailed value verbose g =
    (if \<not> is_power_of_2 value then
       (if VerifyFlagConstraints g then
          InteriorEntryAlignment_minimum e True (round_down_power_of_2 e value) verbose g
        else
          \<lparr>ret = VIOLATES_CONSTRAINT, glob = g,
           printed = printError verbose
             fmt_InteriorEntryAlignment_power_of_two
             [I (InteriorEntryAlignment g)]\<rparr>)
     else InteriorEntryAlignment_minimum e verifyFailed value verbose g)"

definition InteriorEntryAlignmentConstraintFunc ::
  "env \<Rightarrow> intx \<Rightarrow> bool \<Rightarrow> globals \<Rightarrow> result" where
  "InteriorEntryAlignmentConstraintFunc e value verbose g =
    (if CodeEntryAlignment g <s InteriorEntryAlignment g then
       (if VerifyFlagConstraints g then
          InteriorEntryAlignment_power_of_two e True (CodeEntryAlignment g) verbose g
        else
          \<lparr>ret = VIOLATES_CONSTRAINT, glob = g,
           printed = printError verbose
             fmt_InteriorEntryAlignment_CodeEntryAlignment
             [I (InteriorEntryAlignment g), I (CodeEntryAlignment g)]\<rparr>)
     else InteriorEntryAlignment_power_of_two e False value verbose g)"

definition NodeLimitFudgeFactorConstraintFunc :: "intx \<Rightarrow> bool \<Rightarrow> globals \<Rightarrow> result" where
  "NodeLimitFudgeFactorConstraintFunc value verbose g =
    (if value <s sdiv_word (MaxNodeLimit g * 2) 100
        \<or> sdiv_word (MaxNodeLimit g * 40) 100 <s value then
       (if VerifyFlagConstraints g then
          (let limit :: intx =
                 (if value <s sdiv_word (MaxNodeLimit g * 2) 100
                  then sdiv_word (MaxNodeLimit g * 2) 100
                  else sdiv_word (MaxNodeLimit g * 40) 100)
           in \<lparr>ret = SUCCESS, glob = g\<lparr>NodeLimitFudgeFactor := limit\<rparr>,
               printed = printError True fmt_NodeLimitFudgeFactor_set [I limit]\<rparr>)
        else
          \<lparr>ret = VIOLATES_CONSTRAINT, glob = g,
           printed = printError verbose
             fmt_NodeLimitFudgeFactor_between
             [I (MaxNodeLimit g)]\<rparr>)
     else \<lparr>ret = SUCCESS, glob = g, printed = []\<rparr>)"

subsection \<open>Flags that are normalised in either mode\<close>

text \<open>
  Modelled from the spec: \<open>FLAG_SET_DEFAULT\<close> is a macro of runtime/globals_extension.hpp,
  which is not among the sources.  A set on the parameter store writes the value:
  \<open>FLAG_SET_DEFAULT(RTMTotalCountIncrRate, 64)\<close> stores 64 in the flag, as the line
  printed just before it says.
\<close>

definition RTMTotalCountIncrRateConstraintFunc ::
  "env \<Rightarrow> jint \<Rightarrow> bool \<Rightarrow> globals \<Rightarrow> result" where
  "RTMTotalCountIncrRateConstraintFunc e value verbose g =
    (if INCLUDE_RTM_OPT e \<and> UseRTMLocking g \<and> \<not> is_power_of_2 (RTMTotalCountIncrRate g) then
       \<lparr>ret = SUCCESS, glob = g\<lparr>RTMTotalCountIncrRate := 64\<rparr>,
        printed = printError verbose
          fmt_RTMTotalCountIncrRate_reset
          [D (RTMTotalCountIncrRate g)]\<rparr>
     else \<lparr>ret = SUCCESS, glob = g, printed = []\<rparr>)"

definition LoopStripMiningIterConstraintFunc :: "uintx \<Rightarrow> bool \<Rightarrow> globals \<Rightarrow> result" where
  "LoopStripMiningIterConstraintFunc value verbose g =
    (if UseCountedLoopSafepoints g \<and> LoopStripMiningIter g = 0 then
       \<lparr>ret = SUCCESS, glob = g\<lparr>LoopStripMiningIter := 1\<rparr>,
        printed =
          (if \<not> UseCountedLoopSafepoints_is_default g \<or> \<not> LoopStripMiningIter_is_default g
           then printError verbose
             fmt_LoopStripMiningIter_set_1
             []
           else [])\<rparr>
     else if \<not> UseCountedLoopSafepoints g \<and> 0 < LoopStripMiningIter g then
       \<lparr>ret = SUCCESS, glob = g\<lparr>LoopStripMiningIter := 0\<rparr>,
        printed =
          (if \<not> UseCountedLoopSafepoints_is_default g \<or> \<not> LoopStripMiningIter_is_default g
           then printError verbose
             fmt_LoopStripMiningIter_set_0
             []
           else [])\<rparr>
     else \<lparr>ret = SUCCESS, glob = g, printed = []\<rparr>)"

subsection \<open>Concrete environments and a concrete store\<close>

text \<open>
  Modelled from the spec: \<open>round_down_power_of_2\<close> lives in utilities/powerOfTwo.hpp, which
  is not among the sources.  For a positive value the result is the largest power of two
  not exceeding it.  The concrete environments below use this function; its result on a
  non-positive argument (here the argument itself) is not used by any statement.
\<close>

fun largest_power_of_2 :: "nat \<Rightarrow> nat \<Rightarrow> nat" where
  "largest_power_of_2 0 n = 1"
| "largest_power_of_2 (Suc fuel) n =
     (if n < 2 then 1 else 2 * largest_power_of_2 fuel (n div 2))"

definition round_down_power_of_2_positive :: "intx \<Rightarrow> intx" where
  "round_down_power_of_2_positive v =
    (if 0 <s v then word_of_nat (largest_power_of_2 64 (unat v)) else v)"

text \<open>
  A 64-bit x86 build with both compilers, tiered compilation on, and a 64-bit PowerPC
  build, where instructions are four bytes wide (\<open>relocInfo::addr_unit()\<close> is 4).
\<close>

definition linux_x86_64 :: env where
  "linux_x86_64 =
    \<lparr>COMPILER1_OR_COMPILER2 = True, COMPILER2 = True, X86 = True, AMD64 = True, S390 = False,
     INCLUDE_RTM_OPT = True, is_tiered = True, is_interpreter_only = False, count_shift = 1,
     addr_unit = 1, wordSize = 8, BytesPerLong = 8, sizeof_jdouble = 8,
     round_down_power_of_2 = round_down_power_of_2_positive,
     ControlIntrinsicValidator = (\<lambda>value disabled_all. None)\<rparr>"

definition linux_ppc64 :: env where
  "linux_ppc64 = linux_x86_64\<lparr>X86 := False, AMD64 := False, addr_unit := 4\<rparr>"

definition example_globals :: globals where
  "example_globals =
    \<lparr>VerifyFlagConstraints = False, CICompilerCount = 3, AllocatePrefetchDistance = 256,
     AllocatePrefetchStepSize = 64, AllocatePrefetchStyle = 1, AllocatePrefetchInstr = 0,
     CompileThreshold = 10000, OnStackReplacePercentage = 140, ProfileInterpreter = True,
     InterpreterProfilePercentage = 33, CodeCacheSegmentSize = 128, CodeEntryAlignment = 64,
     OptoLoopAlignment = 16, TypeProfileLevel = 111, InteriorEntryAlignment = 16,
     NodeLimitFudgeFactor = 2000, MaxNodeLimit = 80000, UseRTMLocking = False,
     RTMTotalCountIncrRate = 64, UseCountedLoopSafepoints = False,
     UseCountedLoopSafepoints_is_default = True, LoopStripMiningIter = 0,
     LoopStripMiningIter_is_default = True\<rparr>"

subsection \<open>The specification's derived bound and digit codec\<close>

text \<open>
  The upper bound of \<open>OnStackReplacePercentage\<close> in the specification's words: start from
  \<open>INT_MAX\<close>, shift right by the counter shift only when profiling is disabled, scale by 100
  and divide by \<open>CompileThreshold\<close> (no division when it is zero), and add
  \<open>InterpreterProfilePercentage\<close> when profiling is enabled.  All in 64 bits.
\<close>

definition derived_upper_bound :: "env \<Rightarrow> globals \<Rightarrow> int64_t" where
  "derived_upper_bound e g =
    (let start :: int64_t = 0x7FFFFFFF;
         shifted = (if ProfileInterpreter g then start else drop_bit (count_shift e) start);
         scaled = (if CompileThreshold g = 0 then shifted * 100
                   else sdiv_word (shifted * 100) (CompileThreshold g))
     in if ProfileInterpreter g then scaled + InterpreterProfilePercentage g else scaled)"

text \<open>The least accepted value: the profiling percentage when profiling is enabled, else 0.\<close>

definition derived_lower_bound :: "globals \<Rightarrow> intx" where
  "derived_lower_bound g = (if ProfileInterpreter g then InterpreterProfilePercentage g else 0)"

text \<open>
  The specification's digit pack, on natural numbers: the decimal digit at a position, a
  value all of whose three digits are at most 2 and that has no fourth digit, and the value
  re-encoded from the three digits each clamped to 2.
\<close>

definition digit :: "nat \<Rightarrow> nat \<Rightarrow> nat" where
  "digit n i = n div 10 ^ i mod 10"

definition digits_in_range :: "nat \<Rightarrow> bool" where
  "digits_in_range n = (list_all (\<lambda>i. digit n i \<le> 2) [0..<3] \<and> n div 10 ^ 3 = 0)"

definition clamped_digits_value :: "nat \<Rightarrow> nat" where
  "clamped_digits_value n = sum_list (map (\<lambda>i. min (digit n i) 2 * 10 ^ i) [0..<3])"

text \<open>What the loop of \<open>TypeProfileLevelConstraintFunc\<close> stores for one digit when repairing.\<close>

definition clamp_digit :: "juint \<Rightarrow> jint" where
  "clamp_digit d = (if 2 < d then 2 else d)"

section \<open>Properties\<close>

subsection \<open>Repairing mode: every function with a repair branch returns SUCCESS\<close>

lemma TypeProfileLevel_loop_3:
  "TypeProfileLevel_loop 3 0 True verbose v False [0, 0, 0] =
     Inr (v div 10 div 10 div 10,
          2 < v mod 10 \<or> 2 < v div 10 mod 10 \<or> 2 < v div 10 div 10 mod 10,
          [clamp_digit (v mod 10), clamp_digit (v div 10 mod 10),
           clamp_digit (v div 10 div 10 mod 10)])"
  by (simp add: numeral_3_eq_3 clamp_digit_def)

lemma CICompilerCount_repairing:
  "VerifyFlagConstraints g \<Longrightarrow> ret (CICompilerCountConstraintFunc e v verbose g) = SUCCESS"
  by (simp add: CICompilerCountConstraintFunc_def Let_def)

lemma AllocatePrefetchDistance_repairing:
  "VerifyFlagConstraints g \<Longrightarrow> ret (AllocatePrefetchDistanceConstraintFunc v verbose g) = SUCCESS"
  by (simp add: AllocatePrefetchDistanceConstraintFunc_def Let_def)

lemma AllocatePrefetchStepSize_repairing:
  "VerifyFlagConstraints g \<Longrightarrow>
     ret (AllocatePrefetchStepSizeConstraintFunc e v verbose g) = SUCCESS"
  by (simp add: AllocatePrefetchStepSizeConstraintFunc_def Let_def)

lemma AllocatePrefetchInstr_repairing:
  "VerifyFlagConstraints g \<Longrightarrow> ret (AllocatePrefetchInstrConstraintFunc e v verbose g) = SUCCESS"
  by (simp add: AllocatePrefetchInstrConstraintFunc_def Let_def)

lemma CompileThreshold_repairing:
  "VerifyFlagConstraints g \<Longrightarrow> ret (CompileThresholdConstraintFunc e v verbose g) = SUCCESS"
  by (simp add: CompileThresholdConstraintFunc_def Let_def)

lemma CompileThreshold_keeps_mode:
  "VerifyFlagConstraints (glob (CompileThresholdConstraintFunc e v verbose g)) =
     VerifyFlagConstraints g"
  by (simp add: CompileThresholdConstraintFunc_def Let_def)

lemma OnStackReplacePercentage_limits_repairing:
  "VerifyFlagConstraints g \<Longrightarrow> ret (OnStackReplacePercentage_limits e v verbose g) = SUCCESS"
  by (simp add: OnStackReplacePercentage_limits_def Let_def)

lemma OnStackReplacePercentage_repairing:
  "VerifyFlagConstraints g \<Longrightarrow>
     ret (OnStackReplacePercentageConstraintFunc e v verbose g) = SUCCESS"
  by (simp add: OnStackReplacePercentageConstraintFunc_def Let_def CompileThreshold_repairing
      CompileThreshold_keeps_mode OnStackReplacePercentage_limits_repairing)

lemma OptoLoopAlignment_repairing:
  "VerifyFlagConstraints g \<Longrightarrow> ret (OptoLoopAlignmentConstraintFunc e v verbose g) = SUCCESS"
  by (simp add: OptoLoopAlignmentConstraintFunc_def OptoLoopAlignment_addr_unit_def
      OptoLoopAlignment_CodeEntryAlignment_def OptoLoopAlignment_store_def Let_def)

lemma InteriorEntryAlignment_repairing:
  "VerifyFlagConstraints g \<Longrightarrow> ret (InteriorEntryAlignmentConstraintFunc e v verbose g) = SUCCESS"
  by (simp add: InteriorEntryAlignmentConstraintFunc_def InteriorEntryAlignment_power_of_two_def
      InteriorEntryAlignment_minimum_def InteriorEntryAlignment_store_def Let_def)

lemma NodeLimitFudgeFactor_repairing:
  "VerifyFlagConstraints g \<Longrightarrow> ret (NodeLimitFudgeFactorConstraintFunc v verbose g) = SUCCESS"
  by (simp add: NodeLimitFudgeFactorConstraintFunc_def Let_def)

lemma TypeProfileLevel_repairing:
  "VerifyFlagConstraints g \<Longrightarrow> ret (TypeProfileLevelConstraintFunc v verbose g) = SUCCESS"
  by (simp add: TypeProfileLevelConstraintFunc_def TypeProfileLevel_loop_3
      TypeProfileLevel_store_def Let_def)

lemma RTMTotalCountIncrRate_SUCCESS:
  "ret (RTMTotalCountIncrRateConstraintFunc e v verbose g) = SUCCESS"
  by (simp add: RTMTotalCountIncrRateConstraintFunc_def)

lemma LoopStripMiningIter_SUCCESS:
  "ret (LoopStripMiningIterConstraintFunc v verbose g) = SUCCESS"
  by (simp add: LoopStripMiningIterConstraintFunc_def)

subsection \<open>Functions without a repair branch behave alike in both modes\<close>

lemma CodeCacheSegmentSize_either_mode:
  "CodeCacheSegmentSizeConstraintFunc e v verbose (g\<lparr>VerifyFlagConstraints := b\<rparr>) =
     (CodeCacheSegmentSizeConstraintFunc e v verbose g)\<lparr>glob := g\<lparr>VerifyFlagConstraints := b\<rparr>\<rparr>"
  by (simp add: CodeCacheSegmentSizeConstraintFunc_def)

lemma CodeEntryAlignment_either_mode:
  "CodeEntryAlignmentConstraintFunc v verbose (g\<lparr>VerifyFlagConstraints := b\<rparr>) =
     (CodeEntryAlignmentConstraintFunc v verbose g)\<lparr>glob := g\<lparr>VerifyFlagConstraints := b\<rparr>\<rparr>"
  by (simp add: CodeEntryAlignmentConstraintFunc_def)

lemma ArraycopyDstPrefetchDistance_either_mode:
  "ArraycopyDstPrefetchDistanceConstraintFunc v verbose (g\<lparr>VerifyFlagConstraints := b\<rparr>) =
     (ArraycopyDstPrefetchDistanceConstraintFunc v verbose g)\<lparr>glob := g\<lparr>VerifyFlagConstraints := b\<rparr>\<rparr>"
  by (simp add: ArraycopyDstPrefetchDistanceConstraintFunc_def)

lemma ArraycopySrcPrefetchDistance_either_mode:
  "ArraycopySrcPrefetchDistanceConstraintFunc v verbose (g\<lparr>VerifyFlagConstraints := b\<rparr>) =
     (ArraycopySrcPrefetchDistanceConstraintFunc v verbose g)\<lparr>glob := g\<lparr>VerifyFlagConstraints := b\<rparr>\<rparr>"
  by (simp add: ArraycopySrcPrefetchDistanceConstraintFunc_def)

lemma AVX3Threshold_either_mode:
  "AVX3ThresholdConstraintFunc v verbose (g\<lparr>VerifyFlagConstraints := b\<rparr>) =
     (AVX3ThresholdConstraintFunc v verbose g)\<lparr>glob := g\<lparr>VerifyFlagConstraints := b\<rparr>\<rparr>"
  by (simp add: AVX3ThresholdConstraintFunc_def)

lemma VerifyIterativeGVN_either_mode:
  "VerifyIterativeGVNConstraintFunc v verbose (g\<lparr>VerifyFlagConstraints := b\<rparr>) =
     (VerifyIterativeGVNConstraintFunc v verbose g)\<lparr>glob := g\<lparr>VerifyFlagConstraints := b\<rparr>\<rparr>"
  by (simp add: VerifyIterativeGVNConstraintFunc_def Let_def split: sum.split)

lemma InitArrayShortSize_either_mode:
  "InitArrayShortSizeConstraintFunc e v verbose (g\<lparr>VerifyFlagConstraints := b\<rparr>) =
     (InitArrayShortSizeConstraintFunc e v verbose g)\<lparr>glob := g\<lparr>VerifyFlagConstraints := b\<rparr>\<rparr>"
  by (simp add: InitArrayShortSizeConstraintFunc_def)

lemma DisableIntrinsic_either_mode:
  "DisableIntrinsicConstraintFunc e v verbose (g\<lparr>VerifyFlagConstraints := b\<rparr>) =
     (DisableIntrinsicConstraintFunc e v verbose g)\<lparr>glob := g\<lparr>VerifyFlagConstraints := b\<rparr>\<rparr>"
  by (simp add: DisableIntrinsicConstraintFunc_def split: option.split)

lemma ControlIntrinsic_either_mode:
  "ControlIntrinsicConstraintFunc e v verbose (g\<lparr>VerifyFlagConstraints := b\<rparr>) =
     (ControlIntrinsicConstraintFunc e v verbose g)\<lparr>glob := g\<lparr>VerifyFlagConstraints := b\<rparr>\<rparr>"
  by (simp add: ControlIntrinsicConstraintFunc_def split: option.split)

subsection \<open>C1: a repaired value is accepted when checked again\<close>

lemma AllocatePrefetchDistance_repair_accepted:
  assumes "VerifyFlagConstraints g" and "v <s 0 \<or> 512 <s v"
  shows "ret (AllocatePrefetchDistanceConstraintFunc
            (AllocatePrefetchDistance (glob (AllocatePrefetchDistanceConstraintFunc v verbose g)))
            verbose'
            ((glob (AllocatePrefetchDistanceConstraintFunc v verbose g))
               \<lparr>VerifyFlagConstraints := False\<rparr>)) = SUCCESS"
  using assms
  by (simp add: AllocatePrefetchDistanceConstraintFunc_def Let_def word_sless_alt)

lemma AllocatePrefetchInstr_repair_accepted:
  assumes "VerifyFlagConstraints g" and "v <s 0 \<or> (if X86 e then 3 else max_intx) <s v"
  shows "ret (AllocatePrefetchInstrConstraintFunc e
            (AllocatePrefetchInstr (glob (AllocatePrefetchInstrConstraintFunc e v verbose g)))
            verbose'
            ((glob (AllocatePrefetchInstrConstraintFunc e v verbose g))
               \<lparr>VerifyFlagConstraints := False\<rparr>)) = SUCCESS"
  using assms
  by (simp add: AllocatePrefetchInstrConstraintFunc_def Let_def max_intx_def word_sless_alt)

lemma CICompilerCount_repair_accepted:
  assumes "VerifyFlagConstraints g" and "COMPILER1_OR_COMPILER2 e"
    and "ret (CICompilerCountConstraintFunc e v verbose (g\<lparr>VerifyFlagConstraints := False\<rparr>))
           = VIOLATES_CONSTRAINT"
  shows "ret (CICompilerCountConstraintFunc e
            (CICompilerCount (glob (CICompilerCountConstraintFunc e v verbose g)))
            verbose'
            ((glob (CICompilerCountConstraintFunc e v verbose g))
               \<lparr>VerifyFlagConstraints := False\<rparr>)) = SUCCESS"
  using assms by (simp add: CICompilerCountConstraintFunc_def Let_def split: if_splits)

lemma max_CompileThreshold_nonnegative: "\<not> (scast (max_CompileThreshold e) :: intx) <s 0"
  by (simp add: max_CompileThreshold_def INT_MAX_def word_sless_alt sint_up_scast is_up not_less
      sint_signed_drop_bit_eq drop_bit_eq_div pos_imp_zdiv_nonneg_iff)

lemma CompileThreshold_repair_accepted:
  assumes "VerifyFlagConstraints g" and "v <s 0 \<or> scast (max_CompileThreshold e) <s v"
  shows "ret (CompileThresholdConstraintFunc e
            (CompileThreshold (glob (CompileThresholdConstraintFunc e v verbose g)))
            verbose'
            ((glob (CompileThresholdConstraintFunc e v verbose g))
               \<lparr>VerifyFlagConstraints := False\<rparr>)) = SUCCESS"
  using assms max_CompileThreshold_nonnegative [of e]
  by (simp add: CompileThresholdConstraintFunc_def Let_def)

lemma clamp_digit_unat: "unat (clamp_digit d) = min (unat d) 2"
  by (simp add: clamp_digit_def word_less_nat_alt min_def)

lemma small_word_cases:
  fixes c :: jint
  assumes "unat c \<le> 2"
  shows "c = 0 \<or> c = 1 \<or> c = 2"
proof -
  from assms have "unat c = 0 \<or> unat c = 1 \<or> unat c = 2" by arith
  then show ?thesis
    by (auto simp add: word_unat_eq_iff)
qed

lemma clamp_digit_cases: "clamp_digit d = 0 \<or> clamp_digit d = 1 \<or> clamp_digit d = 2"
  by (rule small_word_cases) (simp add: clamp_digit_unat)

lemma TypeProfileLevel_accepts_clamped:
  fixes c0 c1 c2 :: jint
  assumes "c0 = 0 \<or> c0 = 1 \<or> c0 = 2" "c1 = 0 \<or> c1 = 1 \<or> c1 = 2"
    "c2 = 0 \<or> c2 = 1 \<or> c2 = 2" and "\<not> VerifyFlagConstraints g"
  shows "ret (TypeProfileLevelConstraintFunc
               (ucast (scast (c0 + c1 * 10 + c2 * 100) :: uintx)) verbose g) = SUCCESS"
  using assms
  by (auto simp add: TypeProfileLevelConstraintFunc_def TypeProfileLevel_store_def numeral_3_eq_3)

lemma TypeProfileLevel_repair_accepted:
  assumes "VerifyFlagConstraints g"
    and "ret (TypeProfileLevelConstraintFunc v verbose (g\<lparr>VerifyFlagConstraints := False\<rparr>))
           = VIOLATES_CONSTRAINT"
  shows "ret (TypeProfileLevelConstraintFunc
            (TypeProfileLevel (glob (TypeProfileLevelConstraintFunc v verbose g)))
            verbose'
            ((glob (TypeProfileLevelConstraintFunc v verbose g))
               \<lparr>VerifyFlagConstraints := False\<rparr>)) = SUCCESS"
proof (cases "(2 < v mod 10 \<or> 2 < v div 10 mod 10 \<or> 2 < v div 10 div 10 mod 10)
                \<or> v div 10 div 10 div 10 \<noteq> 0")
  case True
  then have st: "glob (TypeProfileLevelConstraintFunc v verbose g) =
      g\<lparr>TypeProfileLevel := ucast (scast (clamp_digit (v mod 10)
           + clamp_digit (v div 10 mod 10) * 10
           + clamp_digit (v div 10 div 10 mod 10) * 100) :: uintx)\<rparr>"
    using assms(1)
    by (auto simp add: TypeProfileLevelConstraintFunc_def TypeProfileLevel_loop_3
        TypeProfileLevel_store_def Let_def)
  show ?thesis
    by (simp add: st TypeProfileLevel_accepts_clamped clamp_digit_cases)
next
  case False
  then have "ret (TypeProfileLevelConstraintFunc v verbose
                    (g\<lparr>VerifyFlagConstraints := False\<rparr>)) = SUCCESS"
    by (simp add: TypeProfileLevelConstraintFunc_def TypeProfileLevel_store_def numeral_3_eq_3)
  with assms(2) show ?thesis by simp
qed

text \<open>
  Two repairs from the specification's scenarios: a compiler-thread count of 1 under tiered
  compilation becomes 2, a prefetch step size of 10 with word size 8 becomes 8; both are
  accepted when checked again.
\<close>

lemma CICompilerCount_tiered_1:
  "let g = example_globals\<lparr>VerifyFlagConstraints := True\<rparr>;
       r = CICompilerCountConstraintFunc linux_x86_64 1 True g
   in ret (CICompilerCountConstraintFunc linux_x86_64 1 True example_globals)
        = VIOLATES_CONSTRAINT
      \<and> CICompilerCount (glob r) = 2
      \<and> ret (CICompilerCountConstraintFunc linux_x86_64 (CICompilerCount (glob r)) True
               ((glob r)\<lparr>VerifyFlagConstraints := False\<rparr>)) = SUCCESS"
  by code_simp

lemma AllocatePrefetchStepSize_10:
  "let g = example_globals\<lparr>VerifyFlagConstraints := True, AllocatePrefetchStyle := 3\<rparr>;
       r = AllocatePrefetchStepSizeConstraintFunc linux_x86_64 10 True g
   in ret (AllocatePrefetchStepSizeConstraintFunc linux_x86_64 10 True
             (example_globals\<lparr>AllocatePrefetchStyle := 3\<rparr>)) = VIOLATES_CONSTRAINT
      \<and> AllocatePrefetchStepSize (glob r) = 8
      \<and> ret (AllocatePrefetchStepSizeConstraintFunc linux_x86_64
               (AllocatePrefetchStepSize (glob r)) True
               ((glob r)\<lparr>VerifyFlagConstraints := False\<rparr>)) = SUCCESS"
  by code_simp

text \<open>
  In a build without compilers, the repair of a positive \<open>CICompilerCount\<close> stores \<open>-1\<close>,
  which the same function rejects as below the minimum 0.
\<close>

lemma CICompilerCount_no_compilers_repair_not_accepted:
  "let e = linux_x86_64\<lparr>COMPILER1_OR_COMPILER2 := False, COMPILER2 := False\<rparr>;
       r = CICompilerCountConstraintFunc e 1 True
             (example_globals\<lparr>VerifyFlagConstraints := True\<rparr>)
   in ret r = SUCCESS \<and> CICompilerCount (glob r) = - 1 \<and>
      ret (CICompilerCountConstraintFunc e (CICompilerCount (glob r)) True
             ((glob r)\<lparr>VerifyFlagConstraints := False\<rparr>)) = VIOLATES_CONSTRAINT"
  by code_simp

text \<open>
  C1 (repair-then-accept) fails for \<open>OptoLoopAlignment\<close> where instructions are wider than a
  byte.  On the PowerPC environment, with \<open>CodeEntryAlignment = 64\<close>, the value 2 is a power
  of two but not a multiple of the instruction size 4; the repair subtracts the remainder
  and stores 0, returning \<open>SUCCESS\<close>.  Checked again without repairing, the stored 0 is
  rejected, since 0 is not a power of two.
\<close>

theorem OptoLoopAlignment_repair_not_accepted:
  "let r = OptoLoopAlignmentConstraintFunc linux_ppc64 2 True
             (example_globals\<lparr>VerifyFlagConstraints := True\<rparr>)
   in ret r = SUCCESS \<and> OptoLoopAlignment (glob r) = 0 \<and>
      ret (OptoLoopAlignmentConstraintFunc linux_ppc64 (OptoLoopAlignment (glob r)) True
             ((glob r)\<lparr>VerifyFlagConstraints := False\<rparr>)) = VIOLATES_CONSTRAINT"
  by code_simp

subsection \<open>C2: which functions can report a violation while repairing\<close>

text \<open>
  C2 as stated says that, while repairing, only the intrinsic list validators and the
  alignment flags excluded from repair can report a violation.  The digit-packed
  \<open>VerifyIterativeGVN\<close> and the multiple-of-eight \<open>InitArrayShortSize\<close> have no repair
  branch either: they report a violation with \<open>VerifyFlagConstraints\<close> set.
\<close>

theorem AutoRepair_violation_without_repair_branch:
  "ret (VerifyIterativeGVNConstraintFunc 2 True
          (example_globals\<lparr>VerifyFlagConstraints := True\<rparr>)) = VIOLATES_CONSTRAINT \<and>
   ret (InitArrayShortSizeConstraintFunc linux_x86_64 1 True
          (example_globals\<lparr>VerifyFlagConstraints := True\<rparr>)) = VIOLATES_CONSTRAINT"
  by code_simp

text \<open>
  C2, amended: with \<open>VerifyFlagConstraints\<close> set, each of the ten functions that have a
  repair branch returns \<open>SUCCESS\<close> for every value, and so do the two normalising
  functions; each function without a repair branch (the two code alignment flags, the two
  arraycopy prefetch distances, \<open>AVX3Threshold\<close>, \<open>VerifyIterativeGVN\<close>,
  \<open>InitArrayShortSize\<close> and the two intrinsic lists) returns what it returns with the
  switch clear.
\<close>

theorem AutoRepair_returns_SUCCESS:
  assumes "VerifyFlagConstraints g"
  shows "ret (CICompilerCountConstraintFunc e v verbose g) = SUCCESS
    \<and> ret (AllocatePrefetchDistanceConstraintFunc v verbose g) = SUCCESS
    \<and> ret (AllocatePrefetchStepSizeConstraintFunc e v verbose g) = SUCCESS
    \<and> ret (AllocatePrefetchInstrConstraintFunc e v verbose g) = SUCCESS
    \<and> ret (CompileThresholdConstraintFunc e v verbose g) = SUCCESS
    \<and> ret (OnStackReplacePercentageConstraintFunc e v verbose g) = SUCCESS
    \<and> ret (OptoLoopAlignmentConstraintFunc e v verbose g) = SUCCESS
    \<and> ret (InteriorEntryAlignmentConstraintFunc e v verbose g) = SUCCESS
    \<and> ret (NodeLimitFudgeFactorConstraintFunc v verbose g) = SUCCESS
    \<and> ret (TypeProfileLevelConstraintFunc d verbose g) = SUCCESS
    \<and> ret (RTMTotalCountIncrRateConstraintFunc e i verbose g) = SUCCESS
    \<and> ret (LoopStripMiningIterConstraintFunc u verbose g) = SUCCESS
    \<and> ret (CodeCacheSegmentSizeConstraintFunc e u verbose g) =
        ret (CodeCacheSegmentSizeConstraintFunc e u verbose (g\<lparr>VerifyFlagConstraints := False\<rparr>))
    \<and> ret (CodeEntryAlignmentConstraintFunc v verbose g) =
        ret (CodeEntryAlignmentConstraintFunc v verbose (g\<lparr>VerifyFlagConstraints := False\<rparr>))
    \<and> ret (ArraycopyDstPrefetchDistanceConstraintFunc u verbose g) =
        ret (ArraycopyDstPrefetchDistanceConstraintFunc u verbose (g\<lparr>VerifyFlagConstraints := False\<rparr>))
    \<and> ret (ArraycopySrcPrefetchDistanceConstraintFunc u verbose g) =
        ret (ArraycopySrcPrefetchDistanceConstraintFunc u verbose (g\<lparr>VerifyFlagConstraints := False\<rparr>))
    \<and> ret (AVX3ThresholdConstraintFunc i verbose g) =
        ret (AVX3ThresholdConstraintFunc i verbose (g\<lparr>VerifyFlagConstraints := False\<rparr>))
    \<and> ret (VerifyIterativeGVNConstraintFunc d verbose g) =
        ret (VerifyIterativeGVNConstraintFunc d verbose (g\<lparr>VerifyFlagConstraints := False\<rparr>))
    \<and> ret (InitArrayShortSizeConstraintFunc e v verbose g) =
        ret (InitArrayShortSizeConstraintFunc e v verbose (g\<lparr>VerifyFlagConstraints := False\<rparr>))
    \<and> ret (DisableIntrinsicConstraintFunc e l verbose g) =
        ret (DisableIntrinsicConstraintFunc e l verbose (g\<lparr>VerifyFlagConstraints := False\<rparr>))
    \<and> ret (ControlIntrinsicConstraintFunc e l verbose g) =
        ret (ControlIntrinsicConstraintFunc e l verbose (g\<lparr>VerifyFlagConstraints := False\<rparr>))"
  using assms
  by (simp add: CICompilerCount_repairing AllocatePrefetchDistance_repairing
      AllocatePrefetchStepSize_repairing AllocatePrefetchInstr_repairing
      CompileThreshold_repairing OnStackReplacePercentage_repairing
      OptoLoopAlignment_repairing InteriorEntryAlignment_repairing
      NodeLimitFudgeFactor_repairing TypeProfileLevel_repairing
      RTMTotalCountIncrRate_SUCCESS LoopStripMiningIter_SUCCESS
      CodeCacheSegmentSize_either_mode CodeEntryAlignment_either_mode
      ArraycopyDstPrefetchDistance_either_mode ArraycopySrcPrefetchDistance_either_mode
      AVX3Threshold_either_mode VerifyIterativeGVN_either_mode InitArrayShortSize_either_mode
      DisableIntrinsic_either_mode ControlIntrinsic_either_mode)

theorem AutoRepair_returns_SUCCESS_witness:
  "VerifyFlagConstraints (example_globals\<lparr>VerifyFlagConstraints := True\<rparr>)
    \<and> ret (CICompilerCountConstraintFunc linux_x86_64 1 True
             (example_globals\<lparr>VerifyFlagConstraints := True\<rparr>)) = SUCCESS
    \<and> ret (OptoLoopAlignmentConstraintFunc linux_x86_64 24 True
             (example_globals\<lparr>VerifyFlagConstraints := True\<rparr>)) = SUCCESS
    \<and> ret (TypeProfileLevelConstraintFunc 239 True
             (example_globals\<lparr>VerifyFlagConstraints := True\<rparr>)) = SUCCESS"
proof -
  have h: "VerifyFlagConstraints (example_globals\<lparr>VerifyFlagConstraints := True\<rparr>)"
    by simp
  show ?thesis
    using h AutoRepair_returns_SUCCESS [OF h, of linux_x86_64 1 True] 
      AutoRepair_returns_SUCCESS [OF h, of linux_x86_64 24 True 239]
    by simp
qed

subsection \<open>C3: a repaired bounded value is the nearest bound\<close>

text \<open>
  What the repair branches of the bounded flags store.  All clamp to the bound that was
  missed, except the lower repair of \<open>AllocatePrefetchDistance\<close>.
\<close>

lemma bounded_repairs:
  assumes "VerifyFlagConstraints g"
  shows "v <s 0 \<Longrightarrow>
          AllocatePrefetchDistance (glob (AllocatePrefetchDistanceConstraintFunc v verbose g)) = 1"
    and "\<not> v <s 0 \<Longrightarrow> 512 <s v \<Longrightarrow>
          AllocatePrefetchDistance (glob (AllocatePrefetchDistanceConstraintFunc v verbose g))
            = 512"
    and "v <s 0 \<Longrightarrow>
          AllocatePrefetchInstr (glob (AllocatePrefetchInstrConstraintFunc e v verbose g)) = 0"
    and "\<not> v <s 0 \<Longrightarrow> (if X86 e then 3 else max_intx) <s v \<Longrightarrow>
          AllocatePrefetchInstr (glob (AllocatePrefetchInstrConstraintFunc e v verbose g))
            = (if X86 e then 3 else max_intx)"
    and "v <s 0 \<Longrightarrow>
          CompileThreshold (glob (CompileThresholdConstraintFunc e v verbose g)) = 0"
    and "\<not> v <s 0 \<Longrightarrow> scast (max_CompileThreshold e) <s v \<Longrightarrow>
          CompileThreshold (glob (CompileThresholdConstraintFunc e v verbose g))
            = scast (max_CompileThreshold e)"
    and "v <s sdiv_word (MaxNodeLimit g * 2) 100 \<Longrightarrow>
          NodeLimitFudgeFactor (glob (NodeLimitFudgeFactorConstraintFunc v verbose g))
            = sdiv_word (MaxNodeLimit g * 2) 100"
    and "\<not> v <s sdiv_word (MaxNodeLimit g * 2) 100 \<Longrightarrow>
         sdiv_word (MaxNodeLimit g * 40) 100 <s v \<Longrightarrow>
          NodeLimitFudgeFactor (glob (NodeLimitFudgeFactorConstraintFunc v verbose g))
            = sdiv_word (MaxNodeLimit g * 40) 100"
  using assms
  by (simp_all add: AllocatePrefetchDistanceConstraintFunc_def
      AllocatePrefetchInstrConstraintFunc_def CompileThresholdConstraintFunc_def
      NodeLimitFudgeFactorConstraintFunc_def Let_def)

text \<open>
  C3 says that a negative \<open>AllocatePrefetchDistance\<close> is repaired to the lower bound 0.
  The function stores 1: for the value \<open>-1\<close>, with \<open>VerifyFlagConstraints\<close> set, the flag
  is 1 afterwards.
\<close>

theorem AllocatePrefetchDistance_negative_repaired_to_1:
  "AllocatePrefetchDistance (glob (AllocatePrefetchDistanceConstraintFunc (- 1) True
     (example_globals\<lparr>VerifyFlagConstraints := True\<rparr>))) = 1"
  by code_simp

subsection \<open>C4: the safepoint and strip-mining pair\<close>

lemma LoopStripMiningIter_frame:
  "glob (LoopStripMiningIterConstraintFunc v verbose g) =
     g\<lparr>LoopStripMiningIter :=
         LoopStripMiningIter (glob (LoopStripMiningIterConstraintFunc v verbose g))\<rparr>"
  by (simp add: LoopStripMiningIterConstraintFunc_def)

lemma LoopStripMiningIter_value:
  "LoopStripMiningIter (glob (LoopStripMiningIterConstraintFunc v verbose g)) =
     (if UseCountedLoopSafepoints g
      then (if LoopStripMiningIter g = 0 then 1 else LoopStripMiningIter g) else 0)"
  by (simp add: LoopStripMiningIterConstraintFunc_def word_gt_0)

lemma LoopStripMiningIter_printed:
  assumes "printed (LoopStripMiningIterConstraintFunc v verbose g) \<noteq> []"
  shows "verbose
    \<and> (\<not> UseCountedLoopSafepoints_is_default g \<or> \<not> LoopStripMiningIter_is_default g)
    \<and> LoopStripMiningIter (glob (LoopStripMiningIterConstraintFunc v verbose g))
        \<noteq> LoopStripMiningIter g"
  using assms
  by (cases "UseCountedLoopSafepoints g"; cases "LoopStripMiningIter g = 0";
      simp add: LoopStripMiningIterConstraintFunc_def printError_def word_gt_0 split: if_splits)

lemma LoopStripMiningIter_either_mode:
  "LoopStripMiningIterConstraintFunc v verbose (g\<lparr>VerifyFlagConstraints := b\<rparr>) =
     (LoopStripMiningIterConstraintFunc v verbose g)
       \<lparr>glob := (glob (LoopStripMiningIterConstraintFunc v verbose g))
                  \<lparr>VerifyFlagConstraints := b\<rparr>\<rparr>"
  by (simp add: LoopStripMiningIterConstraintFunc_def)

text \<open>
  C4 as stated says that the function forces the flag left at its default into agreement
  with the one the caller set, and changes nothing when both are at their defaults.  With
  \<open>UseCountedLoopSafepoints\<close> at its default (off) and \<open>LoopStripMiningIter\<close> set by the
  caller to 5, the function overwrites the caller's 5 with 0 and leaves the defaulted flag
  as it was.  With both flags at their defaults, the safepoint flag on and the count 0 (the
  case in which the source's test of \<open>FLAG_IS_DEFAULT\<close> suppresses the message), the
  function still sets the count to 1, and prints nothing.
\<close>

theorem LoopStripMiningIter_overwrites_explicit_value:
  "let g = example_globals\<lparr>LoopStripMiningIter := 5, LoopStripMiningIter_is_default := False\<rparr>;
       r = LoopStripMiningIterConstraintFunc 5 True g;
       g' = example_globals\<lparr>UseCountedLoopSafepoints := True\<rparr>;
       r' = LoopStripMiningIterConstraintFunc 0 True g'
   in UseCountedLoopSafepoints_is_default g \<and> \<not> LoopStripMiningIter_is_default g
      \<and> LoopStripMiningIter (glob r) = 0
      \<and> UseCountedLoopSafepoints (glob r) = UseCountedLoopSafepoints g
      \<and> UseCountedLoopSafepoints_is_default g' \<and> LoopStripMiningIter_is_default g'
      \<and> LoopStripMiningIter g' = 0 \<and> LoopStripMiningIter (glob r') = 1
      \<and> printed r' = []"
  by code_simp

text \<open>
  C4, amended: the function always returns \<open>SUCCESS\<close> and never changes anything but
  \<open>LoopStripMiningIter\<close>, which it sets to 1 when the safepoint flag is on and the count is
  0, to 0 when the flag is off, and leaves alone otherwise, whichever of the two the caller
  set and also when neither was set.  It prints a line only if \<open>verbose\<close> is set, one of the two flags is not at its
  default, and the count changes.  The switch \<open>VerifyFlagConstraints\<close> has no influence.
\<close>

theorem LoopStripMiningIter_normalization:
  "let r = LoopStripMiningIterConstraintFunc v verbose g
   in ret r = SUCCESS
    \<and> glob r = g\<lparr>LoopStripMiningIter := LoopStripMiningIter (glob r)\<rparr>
    \<and> LoopStripMiningIter (glob r) =
         (if UseCountedLoopSafepoints g
          then (if LoopStripMiningIter g = 0 then 1 else LoopStripMiningIter g) else 0)
    \<and> (printed r \<noteq> [] \<longrightarrow>
         verbose
         \<and> (\<not> UseCountedLoopSafepoints_is_default g \<or> \<not> LoopStripMiningIter_is_default g)
         \<and> LoopStripMiningIter (glob r) \<noteq> LoopStripMiningIter g)
    \<and> LoopStripMiningIterConstraintFunc v verbose (g\<lparr>VerifyFlagConstraints := b\<rparr>) =
        r\<lparr>glob := (glob r)\<lparr>VerifyFlagConstraints := b\<rparr>\<rparr>"
  unfolding Let_def
  apply (intro conjI)
      apply (rule LoopStripMiningIter_SUCCESS)
     apply (rule LoopStripMiningIter_frame)
    apply (rule LoopStripMiningIter_value)
   apply (rule impI, erule LoopStripMiningIter_printed)
  apply (rule LoopStripMiningIter_either_mode)
  done

theorem LoopStripMiningIter_normalization_witness:
  "printed (LoopStripMiningIterConstraintFunc 0 True
      (example_globals\<lparr>UseCountedLoopSafepoints := True,
         UseCountedLoopSafepoints_is_default := False\<rparr>)) \<noteq> []
   \<and> LoopStripMiningIter (glob (LoopStripMiningIterConstraintFunc 0 True
        (example_globals\<lparr>UseCountedLoopSafepoints := True,
           UseCountedLoopSafepoints_is_default := False\<rparr>))) = 1
   \<and> LoopStripMiningIter (glob (LoopStripMiningIterConstraintFunc 0 True
        (example_globals\<lparr>UseCountedLoopSafepoints := True,
           UseCountedLoopSafepoints_is_default := False\<rparr>))) \<noteq>
      LoopStripMiningIter (example_globals\<lparr>UseCountedLoopSafepoints := True,
           UseCountedLoopSafepoints_is_default := False\<rparr>)"
proof -
  have h: "printed (LoopStripMiningIterConstraintFunc 0 True
      (example_globals\<lparr>UseCountedLoopSafepoints := True,
         UseCountedLoopSafepoints_is_default := False\<rparr>)) \<noteq> []"
    by code_simp
  have z: "LoopStripMiningIter example_globals = 0"
    by code_simp
  show ?thesis
    using h z LoopStripMiningIter_normalization [of 0 True
        "example_globals\<lparr>UseCountedLoopSafepoints := True,
           UseCountedLoopSafepoints_is_default := False\<rparr>" True]
    by (simp add: Let_def)
qed

subsection \<open>C5: which flags a constraint function can change\<close>

lemma CICompilerCount_frame:
  "glob (CICompilerCountConstraintFunc e v verbose g) =
     g\<lparr>CICompilerCount := CICompilerCount (glob (CICompilerCountConstraintFunc e v verbose g))\<rparr>"
  by (simp add: CICompilerCountConstraintFunc_def Let_def)

lemma AllocatePrefetchDistance_frame:
  "glob (AllocatePrefetchDistanceConstraintFunc v verbose g) =
     g\<lparr>AllocatePrefetchDistance :=
         AllocatePrefetchDistance (glob (AllocatePrefetchDistanceConstraintFunc v verbose g))\<rparr>"
  by (simp add: AllocatePrefetchDistanceConstraintFunc_def Let_def)

lemma AllocatePrefetchStepSize_frame:
  "glob (AllocatePrefetchStepSizeConstraintFunc e v verbose g) =
     g\<lparr>AllocatePrefetchStepSize :=
         AllocatePrefetchStepSize (glob (AllocatePrefetchStepSizeConstraintFunc e v verbose g))\<rparr>"
  by (simp add: AllocatePrefetchStepSizeConstraintFunc_def Let_def)

lemma AllocatePrefetchInstr_frame:
  "glob (AllocatePrefetchInstrConstraintFunc e v verbose g) =
     g\<lparr>AllocatePrefetchInstr :=
         AllocatePrefetchInstr (glob (AllocatePrefetchInstrConstraintFunc e v verbose g))\<rparr>"
  by (simp add: AllocatePrefetchInstrConstraintFunc_def Let_def)

lemma CompileThreshold_frame:
  "glob (CompileThresholdConstraintFunc e v verbose g) =
     g\<lparr>CompileThreshold := CompileThreshold (glob (CompileThresholdConstraintFunc e v verbose g))\<rparr>"
  by (simp add: CompileThresholdConstraintFunc_def Let_def)

lemma OnStackReplacePercentage_limits_frame:
  "glob (OnStackReplacePercentage_limits e v verbose g) =
     g\<lparr>OnStackReplacePercentage :=
         OnStackReplacePercentage (glob (OnStackReplacePercentage_limits e v verbose g))\<rparr>"
  by (simp add: OnStackReplacePercentage_limits_def Let_def)

lemma OnStackReplacePercentage_glob:
  "glob (OnStackReplacePercentageConstraintFunc e v verbose g) =
     (let r0 = CompileThresholdConstraintFunc e (CompileThreshold g) False g
      in if ret r0 = VIOLATES_CONSTRAINT then glob r0
         else glob (OnStackReplacePercentage_limits e v verbose (glob r0)))"
  by (simp add: OnStackReplacePercentageConstraintFunc_def Let_def)

lemma OnStackReplacePercentage_frame:
  "glob (OnStackReplacePercentageConstraintFunc e v verbose g) =
     g\<lparr>CompileThreshold :=
         CompileThreshold (glob (CompileThresholdConstraintFunc e (CompileThreshold g) False g)),
       OnStackReplacePercentage :=
         OnStackReplacePercentage (glob (OnStackReplacePercentageConstraintFunc e v verbose g))\<rparr>"
proof -
  define r0 where "r0 = CompileThresholdConstraintFunc e (CompileThreshold g) False g"
  define r where "r = OnStackReplacePercentage_limits e v verbose (glob r0)"
  obtain c where g0: "glob r0 = g\<lparr>CompileThreshold := c\<rparr>"
    unfolding r0_def using CompileThreshold_frame by blast
  obtain d where g1: "glob r = (glob r0)\<lparr>OnStackReplacePercentage := d\<rparr>"
    unfolding r_def using OnStackReplacePercentage_limits_frame by blast
  have "glob (OnStackReplacePercentageConstraintFunc e v verbose g) =
          (if ret r0 = VIOLATES_CONSTRAINT then glob r0 else glob r)"
    by (simp add: OnStackReplacePercentage_glob Let_def r0_def r_def)
  then show ?thesis
    by (simp add: r0_def [symmetric] g0 g1)
qed

lemma OptoLoopAlignment_frame:
  "glob (OptoLoopAlignmentConstraintFunc e v verbose g) =
     g\<lparr>OptoLoopAlignment := OptoLoopAlignment (glob (OptoLoopAlignmentConstraintFunc e v verbose g))\<rparr>"
  by (simp add: OptoLoopAlignmentConstraintFunc_def OptoLoopAlignment_addr_unit_def
      OptoLoopAlignment_CodeEntryAlignment_def OptoLoopAlignment_store_def Let_def)

lemma InteriorEntryAlignment_frame:
  "glob (InteriorEntryAlignmentConstraintFunc e v verbose g) =
     g\<lparr>InteriorEntryAlignment :=
         InteriorEntryAlignment (glob (InteriorEntryAlignmentConstraintFunc e v verbose g))\<rparr>"
  by (simp add: InteriorEntryAlignmentConstraintFunc_def InteriorEntryAlignment_power_of_two_def
      InteriorEntryAlignment_minimum_def InteriorEntryAlignment_store_def Let_def)

lemma NodeLimitFudgeFactor_frame:
  "glob (NodeLimitFudgeFactorConstraintFunc v verbose g) =
     g\<lparr>NodeLimitFudgeFactor :=
         NodeLimitFudgeFactor (glob (NodeLimitFudgeFactorConstraintFunc v verbose g))\<rparr>"
  by (simp add: NodeLimitFudgeFactorConstraintFunc_def Let_def)

lemma TypeProfileLevel_frame:
  "glob (TypeProfileLevelConstraintFunc v verbose g) =
     g\<lparr>TypeProfileLevel := TypeProfileLevel (glob (TypeProfileLevelConstraintFunc v verbose g))\<rparr>"
  by (simp add: TypeProfileLevelConstraintFunc_def TypeProfileLevel_store_def Let_def
      split: sum.split)

lemma RTMTotalCountIncrRate_frame:
  "glob (RTMTotalCountIncrRateConstraintFunc e v verbose g) =
     g\<lparr>RTMTotalCountIncrRate :=
         RTMTotalCountIncrRate (glob (RTMTotalCountIncrRateConstraintFunc e v verbose g))\<rparr>"
  by (simp add: RTMTotalCountIncrRateConstraintFunc_def)

lemma CompileThreshold_reporting:
  assumes "\<not> VerifyFlagConstraints g"
  shows "glob (CompileThresholdConstraintFunc e v verbose g) = g"
    and "printed (CompileThresholdConstraintFunc e v False g) = []"
  using assms by (simp_all add: CompileThresholdConstraintFunc_def Let_def printError_def)

lemma OnStackReplacePercentage_limits_reporting:
  "\<not> VerifyFlagConstraints g \<Longrightarrow> glob (OnStackReplacePercentage_limits e v verbose g) = g"
  by (simp add: OnStackReplacePercentage_limits_def Let_def)

lemma OnStackReplacePercentage_reporting:
  "\<not> VerifyFlagConstraints g \<Longrightarrow>
     glob (OnStackReplacePercentageConstraintFunc e v verbose g) = g"
  by (simp add: OnStackReplacePercentage_glob Let_def CompileThreshold_reporting
      OnStackReplacePercentage_limits_reporting)

text \<open>
  C5 as stated says that evaluating the rule of \<open>OnStackReplacePercentage\<close> leaves
  \<open>CompileThreshold\<close> unchanged in every mode.  With \<open>VerifyFlagConstraints\<close> set and
  \<open>CompileThreshold = -1\<close>, the call of \<open>CompileThresholdConstraintFunc\<close> that opens the
  function repairs \<open>CompileThreshold\<close> to 0.
\<close>

theorem OnStackReplacePercentage_repairs_CompileThreshold:
  "CompileThreshold
     (glob (OnStackReplacePercentageConstraintFunc linux_x86_64 140 True
              (example_globals\<lparr>VerifyFlagConstraints := True, CompileThreshold := - 1\<rparr>))) = 0"
  by code_simp

text \<open>
  C5, amended: each constraint function changes no flag other than the one it governs
  (\<open>LoopStripMiningIterConstraintFunc\<close>, declared for a pair, changes only
  \<open>LoopStripMiningIter\<close>), and the functions without a repair branch change none; the one
  exception is \<open>OnStackReplacePercentageConstraintFunc\<close>, which besides its own flag leaves
  \<open>CompileThreshold\<close> as \<open>CompileThresholdConstraintFunc\<close> leaves it, and which changes
  nothing at all when \<open>VerifyFlagConstraints\<close> is clear.
\<close>

theorem constraint_functions_frame:
  "glob (CICompilerCountConstraintFunc e v verbose g) =
     g\<lparr>CICompilerCount := CICompilerCount (glob (CICompilerCountConstraintFunc e v verbose g))\<rparr>
   \<and> glob (AllocatePrefetchDistanceConstraintFunc v verbose g) =
     g\<lparr>AllocatePrefetchDistance :=
         AllocatePrefetchDistance (glob (AllocatePrefetchDistanceConstraintFunc v verbose g))\<rparr>
   \<and> glob (AllocatePrefetchStepSizeConstraintFunc e v verbose g) =
     g\<lparr>AllocatePrefetchStepSize :=
         AllocatePrefetchStepSize (glob (AllocatePrefetchStepSizeConstraintFunc e v verbose g))\<rparr>
   \<and> glob (AllocatePrefetchInstrConstraintFunc e v verbose g) =
     g\<lparr>AllocatePrefetchInstr :=
         AllocatePrefetchInstr (glob (AllocatePrefetchInstrConstraintFunc e v verbose g))\<rparr>
   \<and> glob (CompileThresholdConstraintFunc e v verbose g) =
     g\<lparr>CompileThreshold := CompileThreshold (glob (CompileThresholdConstraintFunc e v verbose g))\<rparr>
   \<and> glob (OnStackReplacePercentageConstraintFunc e v verbose g) =
     g\<lparr>CompileThreshold :=
         CompileThreshold (glob (CompileThresholdConstraintFunc e (CompileThreshold g) False g)),
       OnStackReplacePercentage :=
         OnStackReplacePercentage (glob (OnStackReplacePercentageConstraintFunc e v verbose g))\<rparr>
   \<and> (\<not> VerifyFlagConstraints g \<longrightarrow>
        glob (OnStackReplacePercentageConstraintFunc e v verbose g) = g)
   \<and> glob (OptoLoopAlignmentConstraintFunc e v verbose g) =
     g\<lparr>OptoLoopAlignment := OptoLoopAlignment (glob (OptoLoopAlignmentConstraintFunc e v verbose g))\<rparr>
   \<and> glob (InteriorEntryAlignmentConstraintFunc e v verbose g) =
     g\<lparr>InteriorEntryAlignment :=
         InteriorEntryAlignment (glob (InteriorEntryAlignmentConstraintFunc e v verbose g))\<rparr>
   \<and> glob (NodeLimitFudgeFactorConstraintFunc v verbose g) =
     g\<lparr>NodeLimitFudgeFactor :=
         NodeLimitFudgeFactor (glob (NodeLimitFudgeFactorConstraintFunc v verbose g))\<rparr>
   \<and> glob (TypeProfileLevelConstraintFunc d verbose g) =
     g\<lparr>TypeProfileLevel := TypeProfileLevel (glob (TypeProfileLevelConstraintFunc d verbose g))\<rparr>
   \<and> glob (RTMTotalCountIncrRateConstraintFunc e i verbose g) =
     g\<lparr>RTMTotalCountIncrRate :=
         RTMTotalCountIncrRate (glob (RTMTotalCountIncrRateConstraintFunc e i verbose g))\<rparr>
   \<and> glob (LoopStripMiningIterConstraintFunc u verbose g) =
     g\<lparr>LoopStripMiningIter :=
         LoopStripMiningIter (glob (LoopStripMiningIterConstraintFunc u verbose g))\<rparr>
   \<and> glob (CodeCacheSegmentSizeConstraintFunc e u verbose g) = g
   \<and> glob (CodeEntryAlignmentConstraintFunc v verbose g) = g
   \<and> glob (ArraycopyDstPrefetchDistanceConstraintFunc u verbose g) = g
   \<and> glob (ArraycopySrcPrefetchDistanceConstraintFunc u verbose g) = g
   \<and> glob (AVX3ThresholdConstraintFunc i verbose g) = g
   \<and> glob (VerifyIterativeGVNConstraintFunc d verbose g) = g
   \<and> glob (InitArrayShortSizeConstraintFunc e v verbose g) = g
   \<and> glob (DisableIntrinsicConstraintFunc e l verbose g) = g
   \<and> glob (ControlIntrinsicConstraintFunc e l verbose g) = g"
  apply (intro conjI impI)
  apply (rule CICompilerCount_frame AllocatePrefetchDistance_frame AllocatePrefetchStepSize_frame
      AllocatePrefetchInstr_frame CompileThreshold_frame OnStackReplacePercentage_frame
      OptoLoopAlignment_frame InteriorEntryAlignment_frame NodeLimitFudgeFactor_frame
      TypeProfileLevel_frame RTMTotalCountIncrRate_frame LoopStripMiningIter_frame)+
  apply (erule OnStackReplacePercentage_reporting)
  apply (rule CICompilerCount_frame AllocatePrefetchDistance_frame AllocatePrefetchStepSize_frame
      AllocatePrefetchInstr_frame CompileThreshold_frame OnStackReplacePercentage_frame
      OptoLoopAlignment_frame InteriorEntryAlignment_frame NodeLimitFudgeFactor_frame
      TypeProfileLevel_frame RTMTotalCountIncrRate_frame LoopStripMiningIter_frame)+
  apply (simp_all add: CodeCacheSegmentSizeConstraintFunc_def CodeEntryAlignmentConstraintFunc_def
      ArraycopyDstPrefetchDistanceConstraintFunc_def ArraycopySrcPrefetchDistanceConstraintFunc_def
      AVX3ThresholdConstraintFunc_def VerifyIterativeGVNConstraintFunc_def
      InitArrayShortSizeConstraintFunc_def DisableIntrinsicConstraintFunc_def
      ControlIntrinsicConstraintFunc_def Let_def split: sum.split option.split)
  done

theorem constraint_functions_frame_witness:
  "\<not> VerifyFlagConstraints example_globals
   \<and> glob (OnStackReplacePercentageConstraintFunc linux_x86_64 (- 7) True example_globals)
       = example_globals
   \<and> CompileThreshold (glob (AllocatePrefetchDistanceConstraintFunc 600 True
        (example_globals\<lparr>VerifyFlagConstraints := True\<rparr>))) = 10000"
proof -
  have h: "\<not> VerifyFlagConstraints example_globals"
    by code_simp
  have c: "CompileThreshold example_globals = 10000"
    by code_simp
  have a: "glob (AllocatePrefetchDistanceConstraintFunc 600 True
        (example_globals\<lparr>VerifyFlagConstraints := True\<rparr>)) =
      (example_globals\<lparr>VerifyFlagConstraints := True\<rparr>)
        \<lparr>AllocatePrefetchDistance := AllocatePrefetchDistance
           (glob (AllocatePrefetchDistanceConstraintFunc 600 True
              (example_globals\<lparr>VerifyFlagConstraints := True\<rparr>)))\<rparr>"
    using constraint_functions_frame [of linux_x86_64 600 True
        "example_globals\<lparr>VerifyFlagConstraints := True\<rparr>"]
    by blast
  have "CompileThreshold (glob (AllocatePrefetchDistanceConstraintFunc 600 True
        (example_globals\<lparr>VerifyFlagConstraints := True\<rparr>))) = 10000"
    by (subst a) (simp add: c)
  moreover have "glob (OnStackReplacePercentageConstraintFunc linux_x86_64 (- 7) True
      example_globals) = example_globals"
    using h constraint_functions_frame [of linux_x86_64 "- 7" True example_globals]
    by blast
  ultimately show ?thesis
    using h by blast
qed

subsection \<open>C6: the derived upper bound of OnStackReplacePercentage\<close>

lemma signed_drop_bit_nonnegative:
  "\<not> bit w (LENGTH('a) - Suc 0) \<Longrightarrow> signed_drop_bit n (w :: 'a::len word) = drop_bit n w"
  by (rule bit_word_eqI)
     (auto simp add: bit_signed_drop_bit_iff bit_drop_bit_eq dest: bit_imp_le_length)

lemma signed_drop_bit_INT_MAX:
  "signed_drop_bit n (0x7FFFFFFF :: int64_t) = drop_bit n 0x7FFFFFFF"
  by (rule signed_drop_bit_nonnegative) simp

lemma scast_INT_MAX: "(scast INT_MAX :: int64_t) = 0x7FFFFFFF"
  by (simp add: INT_MAX_def)

text \<open>
  The bound as an integer: for a positive \<open>CompileThreshold\<close> nothing overflows in 64
  bits, and the scaled limit is \<open>INT_MAX\<close>, shifted, times 100, divided by the threshold.
\<close>

lemma sint_shifted_INT_MAX:
  "sint (drop_bit n (0x7FFFFFFF :: int64_t)) = 2147483647 div 2 ^ n"
proof -
  have "sint (signed_drop_bit n (0x7FFFFFFF :: int64_t)) =
          drop_bit n (sint (0x7FFFFFFF :: int64_t))"
    by (rule sint_signed_drop_bit_eq)
  also have "\<dots> = 2147483647 div 2 ^ n"
    by (simp add: drop_bit_eq_div)
  finally show ?thesis
    by (simp only: signed_drop_bit_INT_MAX)
qed

lemma sint_scaled_INT_MAX:
  "sint (drop_bit n (0x7FFFFFFF :: int64_t) * 100) = 2147483647 div 2 ^ n * 100"
proof -
  have "(0::int) \<le> 2147483647 div 2 ^ n"
    by (simp add: pos_imp_zdiv_nonneg_iff)
  moreover have "(2147483647::int) div 2 ^ n \<le> 2147483647"
    using zdiv_mono2 [of 2147483647 1 "2 ^ n"] by simp
  ultimately have "signed_take_bit 63 ((2147483647::int) div 2 ^ n * 100) =
      2147483647 div 2 ^ n * 100"
    by (intro signed_take_bit_int_eq_self) simp_all
  then show ?thesis
    by (simp add: sint_word_mult sint_shifted_INT_MAX)
qed

lemma derived_upper_bound_int:
  assumes "\<not> ProfileInterpreter g" and "0 <s CompileThreshold g"
  shows "sint (derived_upper_bound e g) =
           2147483647 div 2 ^ count_shift e * 100 div sint (CompileThreshold g)"
proof -
  let ?x = "(2147483647::int) div 2 ^ count_shift e * 100"
  let ?c = "sint (CompileThreshold g)"
  have c: "0 < ?c"
    using assms(2) by (simp add: word_sless_alt)
  have x0: "0 \<le> ?x"
    by (simp add: pos_imp_zdiv_nonneg_iff)
  have "(2147483647::int) div 2 ^ count_shift e \<le> 2147483647"
    using zdiv_mono2 [of 2147483647 1 "2 ^ count_shift e"] by simp
  then have x1: "?x \<le> 214748364700"
    by simp
  have q0: "0 \<le> ?x div ?c"
    using c x0 by (simp add: pos_imp_zdiv_nonneg_iff)
  have "?x div ?c \<le> ?x"
    using c x0 zdiv_mono2 [of ?x 1 ?c] by simp
  with x1 have q1: "?x div ?c \<le> 214748364700"
    by simp
  have sd: "?x sdiv ?c = ?x div ?c"
    using c x0 by (simp add: signed_divide_int_def sgn_if)
  have "signed_take_bit 63 (?x div ?c) = ?x div ?c"
    using q0 q1 by (intro signed_take_bit_int_eq_self) simp_all
  then have "sint (sdiv_word (drop_bit (count_shift e) (0x7FFFFFFF :: int64_t) * 100)
                     (CompileThreshold g)) = ?x div ?c"
    by (simp add: sdiv_word_def sint_scaled_INT_MAX sd sint_sbintrunc')
  moreover have "CompileThreshold g \<noteq> 0"
    using assms(2) by auto
  ultimately show ?thesis
    using assms(1) by (simp add: derived_upper_bound_def)
qed

lemma CompileThreshold_ret_verbose:
  "ret (CompileThresholdConstraintFunc e v verbose g) =
     ret (CompileThresholdConstraintFunc e v False g)"
  by (simp add: CompileThresholdConstraintFunc_def Let_def)

lemma OnStackReplacePercentage_limits_reporting_ret:
  assumes "\<not> VerifyFlagConstraints g"
  shows "ret (OnStackReplacePercentage_limits e v verbose g) =
     (if derived_lower_bound g \<le>s v \<and> v \<le>s derived_upper_bound e g
      then SUCCESS else VIOLATES_CONSTRAINT)"
proof (cases "ProfileInterpreter g")
  case True
  with assms show ?thesis
    by (simp add: OnStackReplacePercentage_limits_def derived_upper_bound_def
        derived_lower_bound_def Let_def scast_INT_MAX word_sle_eq word_sless_alt not_less)
next
  case False
  with assms show ?thesis
    by (simp add: OnStackReplacePercentage_limits_def derived_upper_bound_def
        derived_lower_bound_def Let_def scast_INT_MAX signed_drop_bit_INT_MAX
        word_sle_eq word_sless_alt not_less)
qed

lemma OnStackReplacePercentage_limits_repairing_value:
  assumes "VerifyFlagConstraints g"
  shows "OnStackReplacePercentage (glob (OnStackReplacePercentage_limits e v verbose g)) =
     (if v <s derived_lower_bound g then derived_lower_bound g
      else if derived_upper_bound e g <s v then derived_upper_bound e g
      else OnStackReplacePercentage g)"
proof (cases "ProfileInterpreter g")
  case True
  with assms show ?thesis
    by (simp add: OnStackReplacePercentage_limits_def derived_upper_bound_def
        derived_lower_bound_def Let_def scast_INT_MAX)
next
  case False
  with assms show ?thesis
    by (simp add: OnStackReplacePercentage_limits_def derived_upper_bound_def
        derived_lower_bound_def Let_def scast_INT_MAX signed_drop_bit_INT_MAX)
qed

lemma OnStackReplacePercentage_after_CompileThreshold:
  assumes "ret (CompileThresholdConstraintFunc e (CompileThreshold g) False g) = SUCCESS"
  shows "ret (OnStackReplacePercentageConstraintFunc e v verbose g) =
           ret (OnStackReplacePercentage_limits e v verbose
                  (glob (CompileThresholdConstraintFunc e (CompileThreshold g) False g)))"
    and "glob (OnStackReplacePercentageConstraintFunc e v verbose g) =
           glob (OnStackReplacePercentage_limits e v verbose
                  (glob (CompileThresholdConstraintFunc e (CompileThreshold g) False g)))"
  using assms by (simp_all add: OnStackReplacePercentageConstraintFunc_def Let_def)

text \<open>
  C6: the function accepts exactly the values between the lower bound (the profiling
  percentage when \<open>ProfileInterpreter\<close> is on, else 0) and the upper bound computed as the
  specification words it (\<open>derived_upper_bound\<close>).  With \<open>VerifyFlagConstraints\<close> clear and
  \<open>CompileThreshold\<close> valid, a value outside is a violation, in particular every value
  below \<open>InterpreterProfilePercentage\<close> when profiling is on.  With the switch set, a value
  outside is replaced by the bound it misses, the bounds being those of the store that the
  call of \<open>CompileThresholdConstraintFunc\<close> leaves behind.
\<close>

theorem OnStackReplacePercentage_derived_bound:
  "let g1 = glob (CompileThresholdConstraintFunc e (CompileThreshold g) False g);
       r = OnStackReplacePercentageConstraintFunc e v verbose g
   in (\<not> VerifyFlagConstraints g \<and>
         ret (CompileThresholdConstraintFunc e (CompileThreshold g) False g) = SUCCESS \<longrightarrow>
           ret r = (if derived_lower_bound g \<le>s v \<and> v \<le>s derived_upper_bound e g
                    then SUCCESS else VIOLATES_CONSTRAINT)
           \<and> (ProfileInterpreter g \<and> v <s InterpreterProfilePercentage g \<longrightarrow>
                ret r = VIOLATES_CONSTRAINT))
    \<and> (VerifyFlagConstraints g \<longrightarrow>
          ret r = SUCCESS
          \<and> OnStackReplacePercentage (glob r) =
              (if v <s derived_lower_bound g1 then derived_lower_bound g1
               else if derived_upper_bound e g1 <s v then derived_upper_bound e g1
               else OnStackReplacePercentage g))"
proof -
  define g1 where "g1 = glob (CompileThresholdConstraintFunc e (CompileThreshold g) False g)"
  have strict: "ret (OnStackReplacePercentageConstraintFunc e v verbose g) =
      (if derived_lower_bound g \<le>s v \<and> v \<le>s derived_upper_bound e g
       then SUCCESS else VIOLATES_CONSTRAINT)"
    if "\<not> VerifyFlagConstraints g"
      and "ret (CompileThresholdConstraintFunc e (CompileThreshold g) False g) = SUCCESS"
    using that
    by (simp add: OnStackReplacePercentage_after_CompileThreshold CompileThreshold_reporting
        OnStackReplacePercentage_limits_reporting_ret)
  have below: "\<not> (derived_lower_bound g \<le>s v)"
    if "ProfileInterpreter g" and "v <s InterpreterProfilePercentage g"
    using that by (simp add: derived_lower_bound_def word_sle_eq word_sless_alt)
  have repair: "ret (OnStackReplacePercentageConstraintFunc e v verbose g) = SUCCESS
      \<and> OnStackReplacePercentage (glob (OnStackReplacePercentageConstraintFunc e v verbose g)) =
          (if v <s derived_lower_bound g1 then derived_lower_bound g1
           else if derived_upper_bound e g1 <s v then derived_upper_bound e g1
           else OnStackReplacePercentage g)"
    if v: "VerifyFlagConstraints g"
  proof -
    have ok: "ret (CompileThresholdConstraintFunc e (CompileThreshold g) False g) = SUCCESS"
      using v by (rule CompileThreshold_repairing)
    have v1: "VerifyFlagConstraints g1"
      using v by (simp add: g1_def CompileThreshold_keeps_mode)
    have osr: "OnStackReplacePercentage g1 = OnStackReplacePercentage g"
      by (simp add: g1_def CompileThresholdConstraintFunc_def Let_def)
    show ?thesis
      using v1 osr
      by (simp add: OnStackReplacePercentage_after_CompileThreshold [OF ok] g1_def [symmetric]
          OnStackReplacePercentage_limits_repairing OnStackReplacePercentage_limits_repairing_value)
  qed
  show ?thesis
    using strict below repair by (simp add: Let_def g1_def [symmetric])
qed

theorem OnStackReplacePercentage_derived_bound_witness:
  "\<not> VerifyFlagConstraints example_globals
   \<and> ret (CompileThresholdConstraintFunc linux_x86_64 (CompileThreshold example_globals) False
            example_globals) = SUCCESS
   \<and> derived_upper_bound linux_x86_64 example_globals = 21474869
   \<and> ret (OnStackReplacePercentageConstraintFunc linux_x86_64 21474869 True example_globals)
       = SUCCESS
   \<and> ret (OnStackReplacePercentageConstraintFunc linux_x86_64 21474870 True example_globals)
       = VIOLATES_CONSTRAINT
   \<and> ret (OnStackReplacePercentageConstraintFunc linux_x86_64 32 True example_globals)
       = VIOLATES_CONSTRAINT"
proof -
  have h1: "\<not> VerifyFlagConstraints example_globals"
    by code_simp
  have h2: "ret (CompileThresholdConstraintFunc linux_x86_64 (CompileThreshold example_globals)
              False example_globals) = SUCCESS"
    by code_simp
  have b: "derived_upper_bound linux_x86_64 example_globals = 21474869"
    by code_simp
  have l: "derived_lower_bound example_globals = 33"
    by code_simp
  show ?thesis
    using h1 h2 b
      OnStackReplacePercentage_derived_bound [of linux_x86_64 example_globals 21474869 True]
      OnStackReplacePercentage_derived_bound [of linux_x86_64 example_globals 21474870 True]
      OnStackReplacePercentage_derived_bound [of linux_x86_64 example_globals 32 True]
    by (simp add: Let_def l)
qed

subsection \<open>C7: an invalid CompileThreshold stops the check of OnStackReplacePercentage\<close>

text \<open>
  C7: with \<open>VerifyFlagConstraints\<close> clear, if \<open>CompileThresholdConstraintFunc\<close> reports a
  violation for the stored \<open>CompileThreshold\<close>, then \<open>OnStackReplacePercentageConstraintFunc\<close>
  returns \<open>VIOLATES_CONSTRAINT\<close> for every value, changes nothing, and prints (when verbose)
  only the line that \<open>CompileThreshold\<close> is invalid: its own bounds are not looked at.
\<close>

theorem OnStackReplacePercentage_CompileThreshold_invalid:
  assumes "\<not> VerifyFlagConstraints g"
      and "ret (CompileThresholdConstraintFunc e (CompileThreshold g) verbose' g)
             = VIOLATES_CONSTRAINT"
  shows "OnStackReplacePercentageConstraintFunc e v verbose g =
     \<lparr>ret = VIOLATES_CONSTRAINT, glob = g,
      printed = printError verbose fmt_OnStackReplacePercentage_CompileThreshold_invalid []\<rparr>"
proof -
  have "ret (CompileThresholdConstraintFunc e (CompileThreshold g) False g) = VIOLATES_CONSTRAINT"
    using assms(2) by (simp add: CompileThreshold_ret_verbose [of e _ verbose'])
  then show ?thesis
    using assms(1)
    by (simp add: OnStackReplacePercentageConstraintFunc_def CompileThreshold_reporting)
qed

theorem OnStackReplacePercentage_CompileThreshold_invalid_witness:
  "\<not> VerifyFlagConstraints (example_globals\<lparr>CompileThreshold := - 5\<rparr>)
   \<and> ret (CompileThresholdConstraintFunc linux_x86_64 (- 5) True
            (example_globals\<lparr>CompileThreshold := - 5\<rparr>)) = VIOLATES_CONSTRAINT
   \<and> ret (OnStackReplacePercentageConstraintFunc linux_x86_64 140 True example_globals) = SUCCESS
   \<and> OnStackReplacePercentageConstraintFunc linux_x86_64 140 True
        (example_globals\<lparr>CompileThreshold := - 5\<rparr>) =
      \<lparr>ret = VIOLATES_CONSTRAINT, glob = example_globals\<lparr>CompileThreshold := - 5\<rparr>,
       printed = [(fmt_OnStackReplacePercentage_CompileThreshold_invalid, [])]\<rparr>"
proof -
  have h1: "\<not> VerifyFlagConstraints (example_globals\<lparr>CompileThreshold := - 5\<rparr>)"
    by code_simp
  have h2: "ret (CompileThresholdConstraintFunc linux_x86_64
                  (CompileThreshold (example_globals\<lparr>CompileThreshold := - 5\<rparr>)) True
                  (example_globals\<lparr>CompileThreshold := - 5\<rparr>)) = VIOLATES_CONSTRAINT"
    by code_simp
  have h3: "ret (OnStackReplacePercentageConstraintFunc linux_x86_64 140 True example_globals)
              = SUCCESS"
    by code_simp
  show ?thesis
    using h1 h2 h3 OnStackReplacePercentage_CompileThreshold_invalid [OF h1 h2, of 140 True]
    by (simp add: printError_def)
qed

subsection \<open>C8: the digits of TypeProfileLevel\<close>

lemma upt_0_3: "[0..<3] = [0, 1, 2]"
  by code_simp

lemma encode_unat:
  fixes c0 c1 c2 :: jint
  assumes "unat c0 \<le> 2" "unat c1 \<le> 2" "unat c2 \<le> 2"
  shows "unat (ucast (scast (c0 + c1 * 10 + c2 * 100) :: uintx) :: juint) =
           unat c0 + unat c1 * 10 + unat c2 * 100"
  using small_word_cases [OF assms(1)] small_word_cases [OF assms(2)]
    small_word_cases [OF assms(3)]
  by auto

lemma unat_digits:
  fixes v :: juint
  shows "unat (v mod 10) = digit (unat v) 0"
    and "unat (v div 10 mod 10) = digit (unat v) 1"
    and "unat (v div 10 div 10 mod 10) = digit (unat v) 2"
    and "(v div 10 div 10 div 10 = 0) = (unat v div 10 ^ 3 = 0)"
  by (simp_all add: digit_def unat_div unat_mod word_unat_eq_iff flip: div_mult2_eq)

lemma TypeProfileLevel_repaired_value:
  assumes "VerifyFlagConstraints g"
  shows "unat (TypeProfileLevel (glob (TypeProfileLevelConstraintFunc v verbose g))) =
           (if digits_in_range (unat v) then unat (TypeProfileLevel g)
            else clamped_digits_value (unat v))"
proof -
  let ?c0 = "clamp_digit (v mod 10)"
  let ?c1 = "clamp_digit (v div 10 mod 10)"
  let ?c2 = "clamp_digit (v div 10 div 10 mod 10)"
  have d0: "unat ?c0 = min (digit (unat v) 0) 2"
    by (simp add: clamp_digit_unat unat_digits(1))
  have d1: "unat ?c1 = min (digit (unat v) 1) 2"
    by (simp add: clamp_digit_unat unat_digits(2))
  have d2: "unat ?c2 = min (digit (unat v) 2) 2"
    by (simp add: clamp_digit_unat unat_digits(3))
  have "unat (ucast (scast (?c0 + ?c1 * 10 + ?c2 * 100) :: uintx) :: juint) =
          unat ?c0 + unat ?c1 * 10 + unat ?c2 * 100"
    by (rule encode_unat) (simp_all add: d0 d1 d2)
  then have enc: "unat (ucast (scast (?c0 + ?c1 * 10 + ?c2 * 100) :: uintx) :: juint) =
      clamped_digits_value (unat v)"
    by (simp add: d0 d1 d2 clamped_digits_value_def upt_0_3)
  have r0: "digit (unat v) 0 \<le> 2 \<longleftrightarrow> \<not> 2 < v mod 10"
    by (simp add: not_less word_le_nat_alt unat_digits(1))
  have r1: "digit (unat v) (Suc 0) \<le> 2 \<longleftrightarrow> \<not> 2 < v div 10 mod 10"
    by (simp add: not_less word_le_nat_alt unat_digits(2))
  have r2: "digit (unat v) 2 \<le> 2 \<longleftrightarrow> \<not> 2 < v div 10 div 10 mod 10"
    by (simp add: not_less word_le_nat_alt unat_digits(3))
  have rng: "digits_in_range (unat v) \<longleftrightarrow>
       \<not> (2 < v mod 10 \<or> 2 < v div 10 mod 10 \<or> 2 < v div 10 div 10 mod 10)
       \<and> v div 10 div 10 div 10 = 0"
    by (simp add: digits_in_range_def upt_0_3 r0 r1 r2 unat_digits(4))
  show ?thesis
    using assms enc
    by (auto simp add: rng TypeProfileLevelConstraintFunc_def TypeProfileLevel_loop_3
        TypeProfileLevel_store_def Let_def)
qed

lemma TypeProfileLevel_239_reporting:
  "\<not> VerifyFlagConstraints g \<Longrightarrow>
     TypeProfileLevelConstraintFunc 239 verbose g =
       \<lparr>ret = VIOLATES_CONSTRAINT, glob = g,
        printed = printError verbose fmt_TypeProfileLevel_position [U32 239, Pos 0]\<rparr>"
  by (simp add: TypeProfileLevelConstraintFunc_def numeral_3_eq_3)

lemma TypeProfileLevel_239_repairing:
  "VerifyFlagConstraints g \<Longrightarrow>
     TypeProfileLevel (glob (TypeProfileLevelConstraintFunc 239 verbose g)) = 222"
  by (simp add: TypeProfileLevelConstraintFunc_def TypeProfileLevel_loop_3
      TypeProfileLevel_store_def clamp_digit_def)

text \<open>
  C8: for the value 239, with \<open>VerifyFlagConstraints\<close> clear the function reports a
  violation and the line it prints names position 0; with the switch set it stores 222.
  In general, with the switch set, the function returns \<open>SUCCESS\<close>, leaves the flag alone
  when all three digits are at most 2 and there is no fourth digit, and otherwise stores
  the sum of the three low digits, each clamped to 2, times their powers of ten: digits
  beyond the third are dropped.
\<close>

theorem TypeProfileLevel_digit_pack:
  "(\<not> VerifyFlagConstraints g \<longrightarrow>
      TypeProfileLevelConstraintFunc 239 verbose g =
        \<lparr>ret = VIOLATES_CONSTRAINT, glob = g,
         printed = printError verbose fmt_TypeProfileLevel_position [U32 239, Pos 0]\<rparr>)
   \<and> (VerifyFlagConstraints g \<longrightarrow>
        TypeProfileLevel (glob (TypeProfileLevelConstraintFunc 239 verbose g)) = 222
        \<and> ret (TypeProfileLevelConstraintFunc v verbose g) = SUCCESS
        \<and> unat (TypeProfileLevel (glob (TypeProfileLevelConstraintFunc v verbose g))) =
            (if digits_in_range (unat v) then unat (TypeProfileLevel g)
             else clamped_digits_value (unat v)))"
  by (simp add: TypeProfileLevel_239_reporting TypeProfileLevel_239_repairing
      TypeProfileLevel_repairing TypeProfileLevel_repaired_value)

theorem TypeProfileLevel_digit_pack_witness:
  "TypeProfileLevelConstraintFunc 239 True example_globals =
     \<lparr>ret = VIOLATES_CONSTRAINT, glob = example_globals,
      printed = [(fmt_TypeProfileLevel_position, [U32 239, Pos 0])]\<rparr>
   \<and> unat (TypeProfileLevel (glob (TypeProfileLevelConstraintFunc 1239 True
        (example_globals\<lparr>VerifyFlagConstraints := True\<rparr>)))) = 222
   \<and> unat (TypeProfileLevel (glob (TypeProfileLevelConstraintFunc 212 True
        (example_globals\<lparr>VerifyFlagConstraints := True\<rparr>)))) = 111"
proof -
  have h1: "\<not> VerifyFlagConstraints example_globals"
    by code_simp
  have h2: "VerifyFlagConstraints (example_globals\<lparr>VerifyFlagConstraints := True\<rparr>)"
    by simp
  have a: "\<not> digits_in_range (unat (1239 :: juint))"
    and b: "clamped_digits_value (unat (1239 :: juint)) = 222"
    and c: "digits_in_range (unat (212 :: juint))"
    and d: "unat (TypeProfileLevel (example_globals\<lparr>VerifyFlagConstraints := True\<rparr>)) = 111"
    by code_simp+
  show ?thesis
    using h1 h2 a b c d
      TypeProfileLevel_digit_pack [of example_globals True]
      TypeProfileLevel_digit_pack [of "example_globals\<lparr>VerifyFlagConstraints := True\<rparr>" True 1239]
      TypeProfileLevel_digit_pack [of "example_globals\<lparr>VerifyFlagConstraints := True\<rparr>" True 212]
    by (simp add: printError_def)
qed

subsection \<open>C9: RTMTotalCountIncrRate is reset with a notice, never rejected\<close>

text \<open>
  C9 as stated says that the reset of \<open>RTMTotalCountIncrRate\<close> to 64 is silent.  With
  \<open>UseRTMLocking\<close> on, the stored rate 100 and \<open>verbose\<close> set, the function resets the
  rate to 64, returns \<open>SUCCESS\<close>, and prints the line that the rate must be a power of 2
  and is being reset, with the old rate 100 as its argument; so it does with
  \<open>VerifyFlagConstraints\<close> set.
\<close>

theorem RTMTotalCountIncrRate_reset_prints:
  "let g = example_globals\<lparr>UseRTMLocking := True, RTMTotalCountIncrRate := 100\<rparr>;
       r = RTMTotalCountIncrRateConstraintFunc linux_x86_64 100 True g;
       r' = RTMTotalCountIncrRateConstraintFunc linux_x86_64 100 True
              (g\<lparr>VerifyFlagConstraints := True\<rparr>)
   in ret r = SUCCESS \<and> RTMTotalCountIncrRate (glob r) = 64
      \<and> printed r = [(fmt_RTMTotalCountIncrRate_reset, [D 100])]
      \<and> printed r' = [(fmt_RTMTotalCountIncrRate_reset, [D 100])]"
  by code_simp

text \<open>
  C9, amended: \<open>RTMTotalCountIncrRateConstraintFunc\<close> returns \<open>SUCCESS\<close> for every input.
  Where RTM is compiled in, \<open>UseRTMLocking\<close> is on and the stored rate is not a power of
  two, it stores 64 and prints, when \<open>verbose\<close> is set, one line giving the old rate;
  otherwise it changes nothing and prints nothing.  No violation is reported, and
  \<open>VerifyFlagConstraints\<close> has no influence.
\<close>

theorem RTMTotalCountIncrRate_never_violates:
  "ret (RTMTotalCountIncrRateConstraintFunc e v verbose g) = SUCCESS
   \<and> glob (RTMTotalCountIncrRateConstraintFunc e v verbose g) =
       (if INCLUDE_RTM_OPT e \<and> UseRTMLocking g \<and> \<not> is_power_of_2 (RTMTotalCountIncrRate g)
        then g\<lparr>RTMTotalCountIncrRate := 64\<rparr> else g)
   \<and> printed (RTMTotalCountIncrRateConstraintFunc e v verbose g) =
       (if INCLUDE_RTM_OPT e \<and> UseRTMLocking g \<and> \<not> is_power_of_2 (RTMTotalCountIncrRate g)
        then printError verbose fmt_RTMTotalCountIncrRate_reset [D (RTMTotalCountIncrRate g)]
        else [])
   \<and> RTMTotalCountIncrRateConstraintFunc e v verbose (g\<lparr>VerifyFlagConstraints := b\<rparr>) =
       (let r = RTMTotalCountIncrRateConstraintFunc e v verbose g
        in r\<lparr>glob := (glob r)\<lparr>VerifyFlagConstraints := b\<rparr>\<rparr>)"
  by (simp add: RTMTotalCountIncrRateConstraintFunc_def Let_def)

theorem RTMTotalCountIncrRate_never_violates_witness:
  "is_power_of_2 (64 :: jint) \<and> \<not> is_power_of_2 (100 :: jint)
   \<and> ret (RTMTotalCountIncrRateConstraintFunc linux_x86_64 100 True
        (example_globals\<lparr>UseRTMLocking := True, RTMTotalCountIncrRate := 100\<rparr>)) = SUCCESS
   \<and> RTMTotalCountIncrRate (glob (RTMTotalCountIncrRateConstraintFunc linux_x86_64 100 True
        (example_globals\<lparr>UseRTMLocking := True, RTMTotalCountIncrRate := 100\<rparr>))) = 64
   \<and> RTMTotalCountIncrRate (glob (RTMTotalCountIncrRateConstraintFunc linux_x86_64 100 True
        (example_globals\<lparr>UseRTMLocking := True, RTMTotalCountIncrRate := 100,
           VerifyFlagConstraints := True\<rparr>))) = 64"
proof -
  have p: "is_power_of_2 (64 :: jint)" "\<not> is_power_of_2 (100 :: jint)"
    by code_simp+
  have e: "INCLUDE_RTM_OPT linux_x86_64"
    by code_simp
  show ?thesis
    using p e
      RTMTotalCountIncrRate_never_violates [of linux_x86_64 100 True
        "example_globals\<lparr>UseRTMLocking := True, RTMTotalCountIncrRate := 100\<rparr>" True]
    by (simp add: Let_def)
qed

subsection \<open>C10: which functions read their value argument\<close>

text \<open>
  C10 as stated says that \<open>CodeEntryAlignmentConstraintFunc\<close> ignores its value argument.
  Its first check is \<open>is_power_of_2(value)\<close>: on the same store, the argument 64 is
  accepted and the argument 63 is rejected.
\<close>

theorem CodeEntryAlignment_reads_value:
  "ret (CodeEntryAlignmentConstraintFunc 64 True example_globals) = SUCCESS
   \<and> ret (CodeEntryAlignmentConstraintFunc 63 True example_globals) = VIOLATES_CONSTRAINT"
  by code_simp

text \<open>
  C10, amended: \<open>CodeCacheSegmentSizeConstraintFunc\<close> ignores its value argument;
  \<open>CodeEntryAlignmentConstraintFunc\<close> reads it only to test whether it is a power of two,
  so two arguments that agree on that test give the same outcome on the same store.
\<close>

theorem value_argument_ignored:
  "CodeCacheSegmentSizeConstraintFunc e u1 verbose g =
     CodeCacheSegmentSizeConstraintFunc e u2 verbose g
   \<and> (is_power_of_2 v1 = is_power_of_2 v2 \<longrightarrow>
        CodeEntryAlignmentConstraintFunc v1 verbose g =
          CodeEntryAlignmentConstraintFunc v2 verbose g)"
  by (cases "is_power_of_2 v1"; cases "is_power_of_2 v2";
      simp add: CodeCacheSegmentSizeConstraintFunc_def CodeEntryAlignmentConstraintFunc_def)

theorem value_argument_ignored_witness:
  "is_power_of_2 (16 :: intx) = is_power_of_2 (64 :: intx)
   \<and> CodeCacheSegmentSizeConstraintFunc linux_x86_64 1 True example_globals =
       CodeCacheSegmentSizeConstraintFunc linux_x86_64 128 True example_globals
   \<and> CodeEntryAlignmentConstraintFunc 16 True example_globals =
       CodeEntryAlignmentConstraintFunc 64 True example_globals"
proof -
  have h1: "is_power_of_2 (16 :: intx)" and h2: "is_power_of_2 (64 :: intx)"
    by code_simp+
  from h1 h2 have h: "is_power_of_2 (16 :: intx) = is_power_of_2 (64 :: intx)"
    by (simp only:)
  from value_argument_ignored [of linux_x86_64 1 True example_globals 128 16 64]
  have "CodeCacheSegmentSizeConstraintFunc linux_x86_64 1 True example_globals =
       CodeCacheSegmentSizeConstraintFunc linux_x86_64 128 True example_globals"
    and "CodeEntryAlignmentConstraintFunc 16 True example_globals =
       CodeEntryAlignmentConstraintFunc 64 True example_globals"
    using h by blast+
  with h show ?thesis by blast
qed

end
